theory Spec2Isabelle
  imports Complex_Main "HOL-Library.Word"
begin

unbundle bit_operations_syntax

section \<open>The foreign-function binding of Rtsne.multicore\<close>

text \<open>
  The repository's source is one generated file, \<^verbatim>\<open>src/RcppExports.cpp\<close>. It defines
  \<^verbatim>\<open>Rtsne_multicore_Rtsne_cpp\<close>, the entry point the host environment calls with six
  host values (\<^verbatim>\<open>SEXP\<close>). Between \<^verbatim>\<open>BEGIN_RCPP\<close> and \<^verbatim>\<open>END_RCPP\<close> it declares the
  result object, an \<^verbatim>\<open>RNGScope\<close> and an \<^verbatim>\<open>input_parameter\<close> for each of the six
  values, calls the native routine \<^verbatim>\<open>Rtsne_cpp\<close> on the six, which converts them, wraps
  what the routine returns and returns that.

  Everything the file calls is declared elsewhere: the conversions, \<^verbatim>\<open>wrap\<close>,
  \<^verbatim>\<open>RNGScope\<close> and the two macros belong to the binding library, \<^verbatim>\<open>Rtsne_cpp\<close> is only
  declared (line 9). The model takes them as parameters, collected in a record, and
  embeds what the file itself does: the order of the steps, which value goes where, and
  what happens when a step throws.
\<close>

subsection \<open>Native types\<close>

text \<open>
  A C \<^verbatim>\<open>int\<close> is a 32-bit word. A C \<^verbatim>\<open>double\<close> is its 64-bit pattern: the file never
  computes with one, it only hands it on, and equality of patterns is equality bit for bit.
\<close>

type_synonym c_int = "32 word"
type_synonym c_double = "64 word"

subsection \<open>What the file uses and does not define\<close>

text \<open>
  The type variables stand for the types the file treats as opaque: \<open>'w\<close> the state of
  the host process (its heap, its random-number generator), \<open>'s\<close> the host values
  (\<^verbatim>\<open>SEXP\<close>), \<open>'m\<close> \<^verbatim>\<open>NumericMatrix\<close>, \<open>'r\<close> \<^verbatim>\<open>Rcpp::List\<close>, \<open>'e\<close> the C++ exceptions.
  Every operation may read and change the host state. A conversion and the native routine
  either throw (\<open>Inl\<close>) or produce a value (\<open>Inr\<close>).

  One more thing is not the file's: the order in which the six arguments of the call on
  line 20 are evaluated. C++ leaves it to the compiler. \<open>argument_order\<close> is that choice:
  the arguments are evaluated as the list names them. So that every list is an order, an
  argument that the list names again is not evaluated again, and the arguments it does not
  name are evaluated after the others, in the order written.
\<close>

datatype param =
  Arg_X | Arg_no_dims_in | Arg_perplexity_in | Arg_theta_in | Arg_num_threads | Arg_max_iter

record ('w, 's, 'm, 'r, 'e) host =
  RNGScope_ctor :: "'w \<Rightarrow> 'w"
  RNGScope_dtor :: "'w \<Rightarrow> 'w"
  as_NumericMatrix :: "'s \<Rightarrow> 'w \<Rightarrow> ('e + 'm) \<times> 'w"
  as_int :: "'s \<Rightarrow> 'w \<Rightarrow> ('e + c_int) \<times> 'w"
  as_double :: "'s \<Rightarrow> 'w \<Rightarrow> ('e + c_double) \<times> 'w"
  Rtsne_cpp :: "'m \<Rightarrow> c_int \<Rightarrow> c_double \<Rightarrow> c_double \<Rightarrow> c_int \<Rightarrow> c_int \<Rightarrow> 'w \<Rightarrow> ('e + 'r) \<times> 'w"
  wrap :: "'r \<Rightarrow> 'w \<Rightarrow> 's \<times> 'w"
  exception_to_r_condition :: "'e \<Rightarrow> 'w \<Rightarrow> 's \<times> 'w"
  argument_order :: "param list"

subsection \<open>The steps of the wrapper and their trace\<close>

text \<open>
  The wrapper's behaviour is the sequence of operations it performs on the host. The
  model records that sequence in a trace beside the host state; the operations themselves
  see the host state only.
\<close>

datatype 'm event =
    RNGScope_constructed
  | Converted param
  | Conversion_failed param
  | Rtsne_cpp_called 'm c_int c_double c_double c_int c_int
  | Wrapped
  | RNGScope_destroyed

record ('w, 'm) exec =
  world :: 'w
  trace :: "'m event list"

text \<open>Sequencing inside the \<^verbatim>\<open>try\<close> block: a throw skips the statements that follow.\<close>

definition and_then ::
  "('st \<Rightarrow> ('e + 'a) \<times> 'st) \<Rightarrow> ('a \<Rightarrow> 'st \<Rightarrow> ('e + 'b) \<times> 'st) \<Rightarrow> 'st \<Rightarrow> ('e + 'b) \<times> 'st" where
  "and_then m f s = (case m s of (Inl e, s') \<Rightarrow> (Inl e, s') | (Inr v, s') \<Rightarrow> f v s')"

definition RNGScope_construct ::
  "('w, 's, 'm, 'r, 'e) host \<Rightarrow> ('w, 'm) exec \<Rightarrow> ('w, 'm) exec" where
  "RNGScope_construct h s =
     \<lparr>world = RNGScope_ctor h (world s), trace = trace s @ [RNGScope_constructed]\<rparr>"

definition RNGScope_destroy ::
  "('w, 's, 'm, 'r, 'e) host \<Rightarrow> ('w, 'm) exec \<Rightarrow> ('w, 'm) exec" where
  "RNGScope_destroy h s =
     \<lparr>world = RNGScope_dtor h (world s), trace = trace s @ [RNGScope_destroyed]\<rparr>"

text \<open>
  Lines 14 to 19 declare six \<^verbatim>\<open>input_parameter\<close> objects, one for each host value the
  entry point is given. A declaration only keeps its host value. The conversion to the
  native type runs where the object is used as an argument of \<^verbatim>\<open>Rtsne_cpp\<close>, on line 20.
  So the model carries the six host values to the call and converts them there.

  The conversion of one argument, with the host's conversion for its type:
\<close>

definition convert ::
  "param \<Rightarrow> ('s \<Rightarrow> 'w \<Rightarrow> ('e + 'a) \<times> 'w) \<Rightarrow> 's \<Rightarrow> ('w, 'm) exec \<Rightarrow> ('e + 'a) \<times> ('w, 'm) exec" where
  "convert p conv x s =
     (case conv x (world s) of
        (Inl e, w') \<Rightarrow> (Inl e, \<lparr>world = w', trace = trace s @ [Conversion_failed p]\<rparr>)
      | (Inr v, w') \<Rightarrow> (Inr v, \<lparr>world = w', trace = trace s @ [Converted p]\<rparr>))"

text \<open>The arguments evaluated so far, each with its native value.\<close>

record 'm converted =
  have_X :: "'m option"
  have_no_dims_in :: "c_int option"
  have_perplexity_in :: "c_double option"
  have_theta_in :: "c_double option"
  have_num_threads :: "c_int option"
  have_max_iter :: "c_int option"

definition nothing_converted :: "'m converted" where
  "nothing_converted =
     \<lparr>have_X = None, have_no_dims_in = None, have_perplexity_in = None, have_theta_in = None,
      have_num_threads = None, have_max_iter = None\<rparr>"

text \<open>The value of an argument: the one it has, or else its conversion now.\<close>

definition use ::
  "'a option \<Rightarrow> (('w, 'm) exec \<Rightarrow> ('e + 'a) \<times> ('w, 'm) exec) \<Rightarrow> ('w, 'm) exec \<Rightarrow>
     ('e + 'a) \<times> ('w, 'm) exec" where
  "use have conversion s = (case have of Some v \<Rightarrow> (Inr v, s) | None \<Rightarrow> conversion s)"

text \<open>
  The evaluation of one argument of the call. An argument that has its value is not
  evaluated again.
\<close>

definition evaluate_argument ::
  "('w, 's, 'm, 'r, 'e) host \<Rightarrow> 's \<Rightarrow> 's \<Rightarrow> 's \<Rightarrow> 's \<Rightarrow> 's \<Rightarrow> 's \<Rightarrow> param \<Rightarrow> 'm converted \<Rightarrow>
     ('w, 'm) exec \<Rightarrow> ('e + 'm converted) \<times> ('w, 'm) exec" where
  "evaluate_argument h XSEXP no_dims_inSEXP perplexity_inSEXP theta_inSEXP num_threadsSEXP
       max_iterSEXP p c =
     (case p of
        Arg_X \<Rightarrow>
          and_then (use (have_X c) (convert Arg_X (as_NumericMatrix h) XSEXP))
            (\<lambda>v s. (Inr (c\<lparr>have_X := Some v\<rparr>), s))
      | Arg_no_dims_in \<Rightarrow>
          and_then (use (have_no_dims_in c) (convert Arg_no_dims_in (as_int h) no_dims_inSEXP))
            (\<lambda>v s. (Inr (c\<lparr>have_no_dims_in := Some v\<rparr>), s))
      | Arg_perplexity_in \<Rightarrow>
          and_then (use (have_perplexity_in c)
                      (convert Arg_perplexity_in (as_double h) perplexity_inSEXP))
            (\<lambda>v s. (Inr (c\<lparr>have_perplexity_in := Some v\<rparr>), s))
      | Arg_theta_in \<Rightarrow>
          and_then (use (have_theta_in c) (convert Arg_theta_in (as_double h) theta_inSEXP))
            (\<lambda>v s. (Inr (c\<lparr>have_theta_in := Some v\<rparr>), s))
      | Arg_num_threads \<Rightarrow>
          and_then (use (have_num_threads c) (convert Arg_num_threads (as_int h) num_threadsSEXP))
            (\<lambda>v s. (Inr (c\<lparr>have_num_threads := Some v\<rparr>), s))
      | Arg_max_iter \<Rightarrow>
          and_then (use (have_max_iter c) (convert Arg_max_iter (as_int h) max_iterSEXP))
            (\<lambda>v s. (Inr (c\<lparr>have_max_iter := Some v\<rparr>), s)))"

fun evaluate_in_order ::
  "('w, 's, 'm, 'r, 'e) host \<Rightarrow> 's \<Rightarrow> 's \<Rightarrow> 's \<Rightarrow> 's \<Rightarrow> 's \<Rightarrow> 's \<Rightarrow> param list \<Rightarrow> 'm converted \<Rightarrow>
     ('w, 'm) exec \<Rightarrow> ('e + 'm converted) \<times> ('w, 'm) exec" where
  "evaluate_in_order h XSEXP no_dims_inSEXP perplexity_inSEXP theta_inSEXP num_threadsSEXP
       max_iterSEXP [] c =
     (\<lambda>s. (Inr c, s))"
| "evaluate_in_order h XSEXP no_dims_inSEXP perplexity_inSEXP theta_inSEXP num_threadsSEXP
       max_iterSEXP (p # ps) c =
     and_then
       (evaluate_argument h XSEXP no_dims_inSEXP perplexity_inSEXP theta_inSEXP num_threadsSEXP
          max_iterSEXP p c)
       (evaluate_in_order h XSEXP no_dims_inSEXP perplexity_inSEXP theta_inSEXP num_threadsSEXP
          max_iterSEXP ps)"

text \<open>
  The six parameters as the call writes them. The list only completes an order that does
  not name every argument; the order of the conversions is \<open>argument_order\<close>.
\<close>

definition order_written :: "param list" where
  "order_written =
     [Arg_X, Arg_no_dims_in, Arg_perplexity_in, Arg_theta_in, Arg_num_threads, Arg_max_iter]"

text \<open>
  The six values for the call. It is used once all six arguments have been evaluated, and
  then it converts nothing.
\<close>

definition take_values ::
  "('w, 's, 'm, 'r, 'e) host \<Rightarrow> 's \<Rightarrow> 's \<Rightarrow> 's \<Rightarrow> 's \<Rightarrow> 's \<Rightarrow> 's \<Rightarrow> 'm converted \<Rightarrow>
     ('w, 'm) exec \<Rightarrow>
     ('e + 'm \<times> c_int \<times> c_double \<times> c_double \<times> c_int \<times> c_int) \<times> ('w, 'm) exec" where
  "take_values h XSEXP no_dims_inSEXP perplexity_inSEXP theta_inSEXP num_threadsSEXP max_iterSEXP c =
     and_then (use (have_X c) (convert Arg_X (as_NumericMatrix h) XSEXP)) (\<lambda>X.
     and_then (use (have_no_dims_in c) (convert Arg_no_dims_in (as_int h) no_dims_inSEXP))
       (\<lambda>no_dims_in.
     and_then (use (have_perplexity_in c) (convert Arg_perplexity_in (as_double h) perplexity_inSEXP))
       (\<lambda>perplexity_in.
     and_then (use (have_theta_in c) (convert Arg_theta_in (as_double h) theta_inSEXP))
       (\<lambda>theta_in.
     and_then (use (have_num_threads c) (convert Arg_num_threads (as_int h) num_threadsSEXP))
       (\<lambda>num_threads.
     and_then (use (have_max_iter c) (convert Arg_max_iter (as_int h) max_iterSEXP))
       (\<lambda>max_iter.
     (\<lambda>s. (Inr (X, no_dims_in, perplexity_in, theta_in, num_threads, max_iter), s))))))))"

text \<open>
  Line 20, the arguments of the call: all six are evaluated before the routine is entered,
  in the compiler's order, and what that order does not name, after it, as written.
\<close>

definition evaluate_arguments ::
  "('w, 's, 'm, 'r, 'e) host \<Rightarrow> 's \<Rightarrow> 's \<Rightarrow> 's \<Rightarrow> 's \<Rightarrow> 's \<Rightarrow> 's \<Rightarrow> ('w, 'm) exec \<Rightarrow>
     ('e + 'm \<times> c_int \<times> c_double \<times> c_double \<times> c_int \<times> c_int) \<times> ('w, 'm) exec" where
  "evaluate_arguments h XSEXP no_dims_inSEXP perplexity_inSEXP theta_inSEXP num_threadsSEXP max_iterSEXP =
     and_then
       (evaluate_in_order h XSEXP no_dims_inSEXP perplexity_inSEXP theta_inSEXP num_threadsSEXP
          max_iterSEXP (argument_order h @ order_written) nothing_converted)
       (take_values h XSEXP no_dims_inSEXP perplexity_inSEXP theta_inSEXP num_threadsSEXP
          max_iterSEXP)"

text \<open>Line 20, the call itself: \<^verbatim>\<open>Rtsne_cpp(X, no_dims_in, perplexity_in, theta_in, num_threads, max_iter)\<close>.\<close>

definition call_Rtsne_cpp ::
  "('w, 's, 'm, 'r, 'e) host \<Rightarrow> 'm \<times> c_int \<times> c_double \<times> c_double \<times> c_int \<times> c_int \<Rightarrow>
     ('w, 'm) exec \<Rightarrow> ('e + 'r) \<times> ('w, 'm) exec" where
  "call_Rtsne_cpp h args s =
     (case args of (X, no_dims_in, perplexity_in, theta_in, num_threads, max_iter) \<Rightarrow>
        (case Rtsne_cpp h X no_dims_in perplexity_in theta_in num_threads max_iter (world s) of
           (r, w') \<Rightarrow>
             (r, \<lparr>world = w',
                  trace = trace s @
                    [Rtsne_cpp_called X no_dims_in perplexity_in theta_in num_threads max_iter]\<rparr>)))"

text \<open>Line 20, the assignment: \<^verbatim>\<open>rcpp_result_gen = Rcpp::wrap(...)\<close>.\<close>

definition wrap_result ::
  "('w, 's, 'm, 'r, 'e) host \<Rightarrow> 'r \<Rightarrow> ('w, 'm) exec \<Rightarrow> ('e + 's) \<times> ('w, 'm) exec" where
  "wrap_result h r s =
     (case wrap h r (world s) of
        (v, w') \<Rightarrow> (Inr v, \<lparr>world = w', trace = trace s @ [Wrapped]\<rparr>))"

text \<open>
  Lines 12 to 21, the block between the macros. \<^verbatim>\<open>rcpp_result_gen\<close> is declared first
  and holds no value until line 20. The \<^verbatim>\<open>RNGScope\<close> is a local object: its constructor
  runs at line 13, its destructor when the block is left, by \<^verbatim>\<open>return\<close> or by a throw.
\<close>

definition try_block ::
  "('w, 's, 'm, 'r, 'e) host \<Rightarrow> 's \<Rightarrow> 's \<Rightarrow> 's \<Rightarrow> 's \<Rightarrow> 's \<Rightarrow> 's \<Rightarrow> ('w, 'm) exec \<Rightarrow>
     ('e + 's) \<times> ('w, 'm) exec" where
  "try_block h XSEXP no_dims_inSEXP perplexity_inSEXP theta_inSEXP num_threadsSEXP max_iterSEXP s =
     (case and_then
             (evaluate_arguments h XSEXP no_dims_inSEXP perplexity_inSEXP theta_inSEXP
                num_threadsSEXP max_iterSEXP)
             (\<lambda>args. and_then (call_Rtsne_cpp h args) (wrap_result h))
             (RNGScope_construct h s) of
        (r, s') \<Rightarrow> (r, RNGScope_destroy h s'))"

text \<open>
  How control leaves the entry point: it returns a host value, or it signals a host error
  condition and does not return.
\<close>

datatype 's outcome = Returned 's | Signalled 's

text \<open>
  Modelled from the spec: the macros \<^verbatim>\<open>BEGIN_RCPP\<close> and \<^verbatim>\<open>END_RCPP\<close>, which the source
  uses and does not define. \<^verbatim>\<open>BEGIN_RCPP\<close> opens a \<^verbatim>\<open>try\<close> block and \<^verbatim>\<open>END_RCPP\<close>
  closes it with its handlers. By the spec every failure raised inside reaches the caller,
  with its meaning: each exception caught is turned into a host condition by the host's
  translation, and that condition is signalled. The handlers take every exception, and
  they run after the block has been left, so after the destructor of the \<^verbatim>\<open>RNGScope\<close>.
\<close>

definition END_RCPP ::
  "('w, 's, 'm, 'r, 'e) host \<Rightarrow> ('e + 's) \<times> ('w, 'm) exec \<Rightarrow> 's outcome \<times> ('w, 'm) exec" where
  "END_RCPP h rs =
     (case rs of
        (Inr v, s) \<Rightarrow> (Returned v, s)
      | (Inl e, s) \<Rightarrow>
          (case exception_to_r_condition h e (world s) of
             (c, w') \<Rightarrow> (Signalled c, s\<lparr>world := w'\<rparr>)))"

text \<open>The entry point, run on a host state with an empty trace.\<close>

definition Rtsne_multicore_Rtsne_cpp ::
  "('w, 's, 'm, 'r, 'e) host \<Rightarrow> 's \<Rightarrow> 's \<Rightarrow> 's \<Rightarrow> 's \<Rightarrow> 's \<Rightarrow> 's \<Rightarrow> 'w \<Rightarrow>
     's outcome \<times> ('w, 'm) exec" where
  "Rtsne_multicore_Rtsne_cpp h XSEXP no_dims_inSEXP perplexity_inSEXP theta_inSEXP num_threadsSEXP
       max_iterSEXP w =
     END_RCPP h
       (try_block h XSEXP no_dims_inSEXP perplexity_inSEXP theta_inSEXP num_threadsSEXP max_iterSEXP
          \<lparr>world = w, trace = []\<rparr>)"

text \<open>The invocations of the native routine among the events of a trace.\<close>

fun invoked :: "'m event \<Rightarrow> bool" where
  "invoked (Rtsne_cpp_called X no_dims_in perplexity_in theta_in num_threads max_iter) = True"
| "invoked RNGScope_constructed = False"
| "invoked (Converted p) = False"
| "invoked (Conversion_failed p) = False"
| "invoked Wrapped = False"
| "invoked RNGScope_destroyed = False"

definition invocations :: "'m event list \<Rightarrow> 'm event list" where
  "invocations tr = filter invoked tr"

text \<open>An exception that one of the six conversions throws on the argument it is given.\<close>

definition thrown_by_conversion ::
  "('w, 's, 'm, 'r, 'e) host \<Rightarrow> 's \<Rightarrow> 's \<Rightarrow> 's \<Rightarrow> 's \<Rightarrow> 's \<Rightarrow> 's \<Rightarrow> 'e \<Rightarrow> bool" where
  "thrown_by_conversion h XSEXP no_dims_inSEXP perplexity_inSEXP theta_inSEXP num_threadsSEXP
       max_iterSEXP e =
     ((\<exists>w w'. as_NumericMatrix h XSEXP w = (Inl e, w')) \<or>
      (\<exists>w w'. as_int h no_dims_inSEXP w = (Inl e, w')) \<or>
      (\<exists>w w'. as_double h perplexity_inSEXP w = (Inl e, w')) \<or>
      (\<exists>w w'. as_double h theta_inSEXP w = (Inl e, w')) \<or>
      (\<exists>w w'. as_int h num_threadsSEXP w = (Inl e, w')) \<or>
      (\<exists>w w'. as_int h max_iterSEXP w = (Inl e, w')))"

section \<open>A host to run the wrapper on\<close>

text \<open>
  The theorems about the wrapper hold for every host. Their instances, and the inputs at
  which a claim fails, need one host that computes. This one keeps host objects in a heap
  addressed by numbers, so a host value is an address. It has the object kinds the
  wrapper's callers pass: numeric vectors and matrices, character vectors, the result
  list, and the condition object of an error.
\<close>

subsection \<open>Reading a double\<close>

text \<open>
  IEEE 754 binary64: bit 63 is the sign, bits 62 to 52 the exponent, bits 51 to 0 the
  fraction. Exponent 2047 is an infinity or a NaN and has no value.
\<close>

definition double_exponent :: "c_double \<Rightarrow> nat" where
  "double_exponent x = unat (drop_bit 52 x AND 0x7FF)"

definition double_significand :: "c_double \<Rightarrow> nat" where
  "double_significand x =
     (if double_exponent x = 0 then unat (x AND 0xFFFFFFFFFFFFF)
      else 2 ^ 52 + unat (x AND 0xFFFFFFFFFFFFF))"

definition double_value :: "c_double \<Rightarrow> rat option" where
  "double_value x =
     (if double_exponent x = 2047 then None
      else
        let e = max 1 (double_exponent x);
            m = (if 1075 \<le> e then of_nat (double_significand x) * 2 ^ (e - 1075)
                 else of_nat (double_significand x) / 2 ^ (1075 - e))
        in Some (if bit x 63 then - m else m))"

text \<open>The value with its fractional part dropped, as a C cast to an integer type does.\<close>

definition double_truncated :: "c_double \<Rightarrow> int option" where
  "double_truncated x =
     (if double_exponent x = 2047 then None
      else
        let e = max 1 (double_exponent x);
            m = (if 1075 \<le> e then double_significand x * 2 ^ (e - 1075)
                 else double_significand x div 2 ^ (1075 - e))
        in Some (if bit x 63 then - int m else int m))"

definition NA_INTEGER :: c_int where
  "NA_INTEGER = 0x80000000"

text \<open>
  The host's coercion of a real to an integer: the truncated value when it fits an
  \<^verbatim>\<open>int\<close>, the missing-value marker for a NaN, an infinity or a value out of range.
\<close>

definition IntegerFromReal :: "c_double \<Rightarrow> c_int" where
  "IntegerFromReal x =
     (case double_truncated x of
        None \<Rightarrow> NA_INTEGER
      | Some k \<Rightarrow> if 2 ^ 31 \<le> k \<or> k \<le> - (2 ^ 31) then NA_INTEGER else word_of_int k)"

subsection \<open>Host objects and host state\<close>

record matrix =
  nrow :: nat
  ncol :: nat
  elements :: "c_double list"

record result_bundle =
  embedding :: matrix
  cost :: c_double
  iterations :: c_int

datatype failure = ArgumentTypeError | NativeComputationError

datatype robject =
    NILSXP
  | STRSXP "string list"
  | REALSXP "c_double list"
  | REALSXP_matrix matrix
  | VECSXP result_bundle
  | Condition failure

text \<open>
  \<open>Random_seed\<close> is the generator state the caller sees (the variable \<^verbatim>\<open>.Random.seed\<close>,
  absent until a generator has been used), \<open>rng\<close> the generator state native code draws
  from, \<open>clock\<close> what a generator without a seed is seeded from. \<open>received\<close> is memory
  of the native side, where a routine can keep what it was called with.
\<close>

record R_world =
  heap :: "nat \<Rightarrow> robject"
  allocated :: nat
  Random_seed :: "nat option"
  rng :: nat
  clock :: nat
  received :: "(nat \<times> c_int \<times> c_double \<times> c_double \<times> c_int \<times> c_int) list"

definition allocate :: "robject \<Rightarrow> R_world \<Rightarrow> nat \<times> R_world" where
  "allocate obj w =
     (allocated w, w\<lparr>heap := (heap w)(allocated w := obj), allocated := Suc (allocated w)\<rparr>)"

text \<open>
  What an \<^verbatim>\<open>RNGScope\<close> does: its constructor reads the caller's generator state into
  the native one, its destructor writes the native one back.
\<close>

definition GetRNGstate :: "R_world \<Rightarrow> R_world" where
  "GetRNGstate w = w\<lparr>rng := (case Random_seed w of None \<Rightarrow> clock w | Some seed \<Rightarrow> seed)\<rparr>"

definition PutRNGstate :: "R_world \<Rightarrow> R_world" where
  "PutRNGstate w = w\<lparr>Random_seed := Some (rng w)\<rparr>"

text \<open>
  The conversion to \<^verbatim>\<open>NumericMatrix\<close>, as the binding library makes it. A
  \<^verbatim>\<open>NumericMatrix\<close> made from a numeric matrix is a handle on that same object, not a
  copy of it: the native value is the object's address. Anything else cannot be converted,
  which is the \<open>ArgumentTypeError\<close> of the spec.
\<close>

definition R_as_NumericMatrix :: "nat \<Rightarrow> R_world \<Rightarrow> (failure + nat) \<times> R_world" where
  "R_as_NumericMatrix x w =
     (case heap w x of
        REALSXP_matrix M \<Rightarrow> (Inr x, w)
      | _ \<Rightarrow> (Inl ArgumentTypeError, w))"

text \<open>
  Modelled from the spec: the conversions to \<^verbatim>\<open>int\<close> and \<^verbatim>\<open>double\<close>, which the source
  uses and does not define. By the spec a supplied value that cannot be coerced to the
  native type is an \<open>ArgumentTypeError\<close>, and a real number supplied for an \<^verbatim>\<open>int\<close> is
  coerced by the host's numeric-to-integer conversion. The host writes a number as a numeric
  vector of length one, so that is what converts: to a \<^verbatim>\<open>double\<close> as it is, to an
  \<^verbatim>\<open>int\<close> by \<open>IntegerFromReal\<close>.
\<close>

definition R_as_int :: "nat \<Rightarrow> R_world \<Rightarrow> (failure + c_int) \<times> R_world" where
  "R_as_int x w =
     (case heap w x of
        REALSXP [v] \<Rightarrow> (Inr (IntegerFromReal v), w)
      | _ \<Rightarrow> (Inl ArgumentTypeError, w))"

definition R_as_double :: "nat \<Rightarrow> R_world \<Rightarrow> (failure + c_double) \<times> R_world" where
  "R_as_double x w =
     (case heap w x of
        REALSXP [v] \<Rightarrow> (Inr v, w)
      | _ \<Rightarrow> (Inl ArgumentTypeError, w))"

definition R_wrap :: "result_bundle \<Rightarrow> R_world \<Rightarrow> nat \<times> R_world" where
  "R_wrap r w = allocate (VECSXP r) w"

definition R_condition :: "failure \<Rightarrow> R_world \<Rightarrow> nat \<times> R_world" where
  "R_condition e w = allocate (Condition e) w"

text \<open>
  The host, for a compiler's order of evaluation and a native routine. \<open>right_to_left\<close>
  is the order of a compiler that evaluates the last argument first.
\<close>

definition R_host ::
  "param list \<Rightarrow>
   (nat \<Rightarrow> c_int \<Rightarrow> c_double \<Rightarrow> c_double \<Rightarrow> c_int \<Rightarrow> c_int \<Rightarrow> R_world \<Rightarrow>
      (failure + result_bundle) \<times> R_world) \<Rightarrow>
   (R_world, nat, nat, result_bundle, failure) host" where
  "R_host ord native =
     \<lparr>RNGScope_ctor = GetRNGstate, RNGScope_dtor = PutRNGstate,
      as_NumericMatrix = R_as_NumericMatrix, as_int = R_as_int, as_double = R_as_double,
      Rtsne_cpp = native, wrap = R_wrap, exception_to_r_condition = R_condition,
      argument_order = ord\<rparr>"

definition right_to_left :: "param list" where
  "right_to_left =
     [Arg_max_iter, Arg_num_threads, Arg_theta_in, Arg_perplexity_in, Arg_no_dims_in, Arg_X]"

subsection \<open>The native routine\<close>

text \<open>
  Modelled from the spec: the native routine \<^verbatim>\<open>Rtsne_cpp\<close>, which the source declares
  and does not define. The spec gives its contract. An input is valid when the matrix has
  at least 2 rows, the perplexity is less than the number of rows minus 1, theta lies in
  [0, 1] and the target dimensionality, the thread count and the iteration budget are at
  least 1. On a valid input the routine returns a bundle whose embedding has one row per
  observation and one column per target dimension; on any other it fails loudly with a
  \<open>NativeComputationError\<close>. The coordinates and the diagnostics are the work of the
  optimisation, which the spec leaves open: \<open>engine\<close> stands for it.
\<close>

definition valid_input :: "matrix \<Rightarrow> c_int \<Rightarrow> c_double \<Rightarrow> c_double \<Rightarrow> c_int \<Rightarrow> c_int \<Rightarrow> bool" where
  "valid_input M target_dims perplexity theta threads budget =
     (2 \<le> nrow M \<and>
      (case double_value perplexity of None \<Rightarrow> False | Some v \<Rightarrow> v < of_nat (nrow M) - 1) \<and>
      (case double_value theta of None \<Rightarrow> False | Some v \<Rightarrow> 0 \<le> v \<and> v \<le> 1) \<and>
      1 \<le> sint target_dims \<and> 1 \<le> sint threads \<and> 1 \<le> sint budget)"

definition spec_Rtsne_cpp ::
  "(matrix \<Rightarrow> c_int \<Rightarrow> c_double \<Rightarrow> c_double \<Rightarrow> c_int \<Rightarrow> c_int \<Rightarrow> c_double list \<times> c_double \<times> c_int) \<Rightarrow>
   nat \<Rightarrow> c_int \<Rightarrow> c_double \<Rightarrow> c_double \<Rightarrow> c_int \<Rightarrow> c_int \<Rightarrow> R_world \<Rightarrow>
     (failure + result_bundle) \<times> R_world" where
  "spec_Rtsne_cpp engine X target_dims perplexity theta threads budget w =
     (case heap w X of
        REALSXP_matrix M \<Rightarrow>
          if valid_input M target_dims perplexity theta threads budget
          then (case engine M target_dims perplexity theta threads budget of
                  (Y, c, k) \<Rightarrow>
                    (Inr \<lparr>embedding = \<lparr>nrow = nrow M, ncol = nat (sint target_dims), elements = Y\<rparr>,
                          cost = c, iterations = k\<rparr>, w))
          else (Inl NativeComputationError, w)
      | _ \<Rightarrow> (Inl NativeComputationError, w))"

text \<open>An engine for the examples: every coordinate zero, the whole budget used.\<close>

definition zero_engine ::
  "matrix \<Rightarrow> c_int \<Rightarrow> c_double \<Rightarrow> c_double \<Rightarrow> c_int \<Rightarrow> c_int \<Rightarrow> c_double list \<times> c_double \<times> c_int" where
  "zero_engine M target_dims perplexity theta threads budget =
     (replicate (nrow M * nat (sint target_dims)) 0, 0, budget)"

text \<open>
  A native routine that works in the buffer it is given: it clears the matrix it receives
  before it returns. It checks nothing.
\<close>

definition in_place_Rtsne_cpp ::
  "nat \<Rightarrow> c_int \<Rightarrow> c_double \<Rightarrow> c_double \<Rightarrow> c_int \<Rightarrow> c_int \<Rightarrow> R_world \<Rightarrow>
     (failure + result_bundle) \<times> R_world" where
  "in_place_Rtsne_cpp X target_dims perplexity theta threads budget w =
     (case heap w X of
        REALSXP_matrix M \<Rightarrow>
          (Inr \<lparr>embedding = \<lparr>nrow = nrow M, ncol = nat (sint target_dims), elements = []\<rparr>,
                cost = 0, iterations = budget\<rparr>,
           w\<lparr>heap := (heap w)(X := REALSXP_matrix (M\<lparr>elements := map (\<lambda>v. 0) (elements M)\<rparr>))\<rparr>)
      | _ \<Rightarrow> (Inl NativeComputationError, w))"

text \<open>
  A native routine that does nothing but keep what it is called with. It returns a bundle
  with an embedding of no rows.
\<close>

definition recording_Rtsne_cpp ::
  "nat \<Rightarrow> c_int \<Rightarrow> c_double \<Rightarrow> c_double \<Rightarrow> c_int \<Rightarrow> c_int \<Rightarrow> R_world \<Rightarrow>
     (failure + result_bundle) \<times> R_world" where
  "recording_Rtsne_cpp X target_dims perplexity theta threads budget w =
     (Inr \<lparr>embedding = \<lparr>nrow = 0, ncol = 0, elements = []\<rparr>, cost = 0, iterations = 0\<rparr>,
      w\<lparr>received := received w @ [(X, target_dims, perplexity, theta, threads, budget)]\<rparr>)"

subsection \<open>An example call\<close>

text \<open>
  A caller's state before its first call. Address 11 holds a matrix of 4 observations
  with 2 features (the values 1.0 to 8.0), addresses 12 to 16 the scalars 2.0, 1.0, 0.5, 1.0
  and 1000.0 as the host writes numbers (reals), address 17 a character vector, address 18
  a matrix without rows. No generator has been used yet and no routine has been called.
\<close>

definition example_matrix :: matrix where
  "example_matrix =
     \<lparr>nrow = 4, ncol = 2,
      elements = [0x3FF0000000000000, 0x4000000000000000, 0x4008000000000000, 0x4010000000000000,
                  0x4014000000000000, 0x4018000000000000, 0x401C000000000000, 0x4020000000000000]\<rparr>"

definition example_world :: R_world where
  "example_world =
     \<lparr>heap = (\<lambda>a. NILSXP)
        (11 := REALSXP_matrix example_matrix,
         12 := REALSXP [0x4000000000000000],
         13 := REALSXP [0x3FF0000000000000],
         14 := REALSXP [0x3FE0000000000000],
         15 := REALSXP [0x3FF0000000000000],
         16 := REALSXP [0x408F400000000000],
         17 := STRSXP [''two''],
         18 := REALSXP_matrix \<lparr>nrow = 0, ncol = 2, elements = []\<rparr>),
      allocated = 19, Random_seed = None, rng = 0, clock = 5489, received = []\<rparr>"

subsection \<open>Frames\<close>

text \<open>
  An operation leaves an observation \<open>obs\<close> of the host state unchanged, on the states
  that satisfy \<open>I\<close>, when it keeps \<open>I\<close> and the value of \<open>obs\<close>. The condition \<open>I\<close> is
  there because an operation that allocates leaves an object alone only if the object is
  allocated already.
\<close>

definition leaves_unchanged :: "('w \<Rightarrow> bool) \<Rightarrow> ('w \<Rightarrow> 'a) \<Rightarrow> ('w \<Rightarrow> 'w) \<Rightarrow> bool" where
  "leaves_unchanged I obs f = (\<forall>w. I w \<longrightarrow> I (f w) \<and> obs (f w) = obs w)"

text \<open>The operations of the binding library that the wrapper performs.\<close>

definition library_leaves_unchanged ::
  "('w \<Rightarrow> bool) \<Rightarrow> ('w \<Rightarrow> 'a) \<Rightarrow> ('w, 's, 'm, 'r, 'e) host \<Rightarrow> bool" where
  "library_leaves_unchanged I obs h =
     (leaves_unchanged I obs (RNGScope_ctor h) \<and>
      leaves_unchanged I obs (RNGScope_dtor h) \<and>
      (\<forall>x. leaves_unchanged I obs (\<lambda>w. snd (as_NumericMatrix h x w))) \<and>
      (\<forall>x. leaves_unchanged I obs (\<lambda>w. snd (as_int h x w))) \<and>
      (\<forall>x. leaves_unchanged I obs (\<lambda>w. snd (as_double h x w))) \<and>
      (\<forall>r. leaves_unchanged I obs (\<lambda>w. snd (wrap h r w))) \<and>
      (\<forall>e. leaves_unchanged I obs (\<lambda>w. snd (exception_to_r_condition h e w))))"

definition native_leaves_unchanged ::
  "('w \<Rightarrow> bool) \<Rightarrow> ('w \<Rightarrow> 'a) \<Rightarrow> ('w, 's, 'm, 'r, 'e) host \<Rightarrow> bool" where
  "native_leaves_unchanged I obs h =
     (\<forall>X d p t n m. leaves_unchanged I obs (\<lambda>w. snd (Rtsne_cpp h X d p t n m w)))"

definition native_keeps :: "('w \<Rightarrow> bool) \<Rightarrow> ('w, 's, 'm, 'r, 'e) host \<Rightarrow> bool" where
  "native_keeps I h = (\<forall>X d p t n m w. I w \<longrightarrow> I (snd (Rtsne_cpp h X d p t n m w)))"

subsection \<open>What the evaluation of the arguments has done\<close>

text \<open>
  A value that a conversion produced for a host value, and an exception that it threw on
  it, in a host state that satisfies \<open>I\<close>.
\<close>

definition produced :: "('w \<Rightarrow> bool) \<Rightarrow> ('s \<Rightarrow> 'w \<Rightarrow> ('e + 'a) \<times> 'w) \<Rightarrow> 's \<Rightarrow> 'a \<Rightarrow> bool" where
  "produced I conv x v = (\<exists>u u'. I u \<and> conv x u = (Inr v, u'))"

definition refused :: "('w \<Rightarrow> bool) \<Rightarrow> ('s \<Rightarrow> 'w \<Rightarrow> ('e + 'a) \<times> 'w) \<Rightarrow> 's \<Rightarrow> 'e \<Rightarrow> bool" where
  "refused I conv x e = (\<exists>u u'. I u \<and> conv x u = (Inl e, u'))"

fun is_converted :: "'m converted \<Rightarrow> param \<Rightarrow> bool" where
  "is_converted c Arg_X = (have_X c \<noteq> None)"
| "is_converted c Arg_no_dims_in = (have_no_dims_in c \<noteq> None)"
| "is_converted c Arg_perplexity_in = (have_perplexity_in c \<noteq> None)"
| "is_converted c Arg_theta_in = (have_theta_in c \<noteq> None)"
| "is_converted c Arg_num_threads = (have_num_threads c \<noteq> None)"
| "is_converted c Arg_max_iter = (have_max_iter c \<noteq> None)"

text \<open>Every value an argument has was produced by the conversion of its host value.\<close>

definition values_produced ::
  "('w \<Rightarrow> bool) \<Rightarrow> ('w, 's, 'm, 'r, 'e) host \<Rightarrow> 's \<Rightarrow> 's \<Rightarrow> 's \<Rightarrow> 's \<Rightarrow> 's \<Rightarrow> 's \<Rightarrow>
     'm converted \<Rightarrow> bool" where
  "values_produced I h XSEXP no_dims_inSEXP perplexity_inSEXP theta_inSEXP num_threadsSEXP
       max_iterSEXP c =
     ((\<forall>v. have_X c = Some v \<longrightarrow> produced I (as_NumericMatrix h) XSEXP v) \<and>
      (\<forall>v. have_no_dims_in c = Some v \<longrightarrow> produced I (as_int h) no_dims_inSEXP v) \<and>
      (\<forall>v. have_perplexity_in c = Some v \<longrightarrow> produced I (as_double h) perplexity_inSEXP v) \<and>
      (\<forall>v. have_theta_in c = Some v \<longrightarrow> produced I (as_double h) theta_inSEXP v) \<and>
      (\<forall>v. have_num_threads c = Some v \<longrightarrow> produced I (as_int h) num_threadsSEXP v) \<and>
      (\<forall>v. have_max_iter c = Some v \<longrightarrow> produced I (as_int h) max_iterSEXP v))"

text \<open>The conversion of the argument \<open>p\<close> threw \<open>e\<close>.\<close>

definition thrown_at ::
  "('w \<Rightarrow> bool) \<Rightarrow> ('w, 's, 'm, 'r, 'e) host \<Rightarrow> 's \<Rightarrow> 's \<Rightarrow> 's \<Rightarrow> 's \<Rightarrow> 's \<Rightarrow> 's \<Rightarrow>
     param \<Rightarrow> 'e \<Rightarrow> bool" where
  "thrown_at I h XSEXP no_dims_inSEXP perplexity_inSEXP theta_inSEXP num_threadsSEXP max_iterSEXP
       p e =
     (case p of
        Arg_X \<Rightarrow> refused I (as_NumericMatrix h) XSEXP e
      | Arg_no_dims_in \<Rightarrow> refused I (as_int h) no_dims_inSEXP e
      | Arg_perplexity_in \<Rightarrow> refused I (as_double h) perplexity_inSEXP e
      | Arg_theta_in \<Rightarrow> refused I (as_double h) theta_inSEXP e
      | Arg_num_threads \<Rightarrow> refused I (as_int h) num_threadsSEXP e
      | Arg_max_iter \<Rightarrow> refused I (as_int h) max_iterSEXP e)"

text \<open>The conversions keep \<open>I\<close>.\<close>

definition conversions_keep :: "('w \<Rightarrow> bool) \<Rightarrow> ('w, 's, 'm, 'r, 'e) host \<Rightarrow> bool" where
  "conversions_keep I h =
     (\<forall>x w. I w \<longrightarrow>
        I (snd (as_NumericMatrix h x w)) \<and> I (snd (as_int h x w)) \<and> I (snd (as_double h x w)))"

section \<open>How the arguments are evaluated\<close>

text \<open>
  The evaluation of the arguments keeps what each conversion keeps. Each value it yields
  is a value the host's conversion produced for the host value supplied for that
  argument, every argument is converted once, and when it throws, the exception is the one a
  conversion threw on the value supplied.
\<close>

lemma use_convert:
  assumes keep: "\<And>w. I w \<Longrightarrow> I (snd (conv x w))" and s: "I (world s)"
    and got: "\<And>v. slot = Some v \<Longrightarrow> produced I conv x v"
    and run: "use slot (convert p conv x) s = (r, s')"
  shows "I (world s') \<and>
         (case r of
            Inr v \<Rightarrow> produced I conv x v \<and>
              trace s' = trace s @ (if slot = None then [Converted p] else [])
          | Inl e \<Rightarrow> slot = None \<and> refused I conv x e \<and>
              trace s' = trace s @ [Conversion_failed p])"
proof (cases slot)
  case (Some v)
  with run have "r = Inr v" "s' = s" by (simp_all add: use_def)
  with s got [OF Some] Some show ?thesis by simp
next
  case None
  obtain r0 w' where c: "conv x (world s) = (r0, w')" by (cases "conv x (world s)") auto
  from keep [OF s] c have w': "I w'" by simp
  show ?thesis
  proof (cases r0)
    case (Inl e)
    with c run None have "r = Inl e" "s' = \<lparr>world = w', trace = trace s @ [Conversion_failed p]\<rparr>"
      by (simp_all add: use_def convert_def)
    moreover from c Inl s have "refused I conv x e" by (auto simp: refused_def)
    ultimately show ?thesis using w' None by simp
  next
    case (Inr v)
    with c run None have "r = Inr v" "s' = \<lparr>world = w', trace = trace s @ [Converted p]\<rparr>"
      by (simp_all add: use_def convert_def)
    moreover from c Inr s have "produced I conv x v" by (auto simp: produced_def)
    ultimately show ?thesis using w' None by simp
  qed
qed

lemma conversions_keepD:
  assumes "conversions_keep I h" and "I w"
  shows "I (snd (as_NumericMatrix h x w))" "I (snd (as_int h x w))" "I (snd (as_double h x w))"
  using assms by (simp_all add: conversions_keep_def)

lemma is_converted_update:
  "is_converted (c\<lparr>have_X := Some vX\<rparr>) q = (q = Arg_X \<or> is_converted c q)"
  "is_converted (c\<lparr>have_no_dims_in := Some vi\<rparr>) q = (q = Arg_no_dims_in \<or> is_converted c q)"
  "is_converted (c\<lparr>have_perplexity_in := Some vd\<rparr>) q = (q = Arg_perplexity_in \<or> is_converted c q)"
  "is_converted (c\<lparr>have_theta_in := Some vd\<rparr>) q = (q = Arg_theta_in \<or> is_converted c q)"
  "is_converted (c\<lparr>have_num_threads := Some vi\<rparr>) q = (q = Arg_num_threads \<or> is_converted c q)"
  "is_converted (c\<lparr>have_max_iter := Some vi\<rparr>) q = (q = Arg_max_iter \<or> is_converted c q)"
  by (cases q; simp)+

lemma evaluate_argument_step:
  assumes keep: "conversions_keep I h" and s: "I (world s)"
    and c: "values_produced I h XS dS pS tS nS mS c"
    and run: "evaluate_argument h XS dS pS tS nS mS p c s = (r, s')"
  shows "I (world s') \<and>
         (case r of
            Inr c' \<Rightarrow> values_produced I h XS dS pS tS nS mS c' \<and>
              (\<forall>q. is_converted c' q = (q = p \<or> is_converted c q)) \<and>
              trace s' = trace s @ (if is_converted c p then [] else [Converted p])
          | Inl e \<Rightarrow> \<not> is_converted c p \<and> thrown_at I h XS dS pS tS nS mS p e \<and>
              trace s' = trace s @ [Conversion_failed p])"
proof -
  show ?thesis
  proof (cases p)
    case Arg_X
    obtain r0 s0 where u: "use (have_X c) (convert Arg_X (as_NumericMatrix h) XS) s = (r0, s0)"
      by (cases "use (have_X c) (convert Arg_X (as_NumericMatrix h) XS) s") auto
    from c have "\<And>v. have_X c = Some v \<Longrightarrow> produced I (as_NumericMatrix h) XS v"
      by (simp add: values_produced_def)
    from use_convert [OF conversions_keepD(1) [OF keep] s this u] u run Arg_X c show ?thesis
      by (cases r0)
         (auto simp: evaluate_argument_def and_then_def values_produced_def thrown_at_def
            is_converted_update)
  next
    case Arg_no_dims_in
    obtain r0 s0 where u: "use (have_no_dims_in c) (convert Arg_no_dims_in (as_int h) dS) s = (r0, s0)"
      by (cases "use (have_no_dims_in c) (convert Arg_no_dims_in (as_int h) dS) s") auto
    from c have "\<And>v. have_no_dims_in c = Some v \<Longrightarrow> produced I (as_int h) dS v"
      by (simp add: values_produced_def)
    from use_convert [OF conversions_keepD(2) [OF keep] s this u] u run Arg_no_dims_in c show ?thesis
      by (cases r0)
         (auto simp: evaluate_argument_def and_then_def values_produced_def thrown_at_def
            is_converted_update)
  next
    case Arg_perplexity_in
    obtain r0 s0 where u: "use (have_perplexity_in c) (convert Arg_perplexity_in (as_double h) pS) s = (r0, s0)"
      by (cases "use (have_perplexity_in c) (convert Arg_perplexity_in (as_double h) pS) s") auto
    from c have "\<And>v. have_perplexity_in c = Some v \<Longrightarrow> produced I (as_double h) pS v"
      by (simp add: values_produced_def)
    from use_convert [OF conversions_keepD(3) [OF keep] s this u] u run Arg_perplexity_in c show ?thesis
      by (cases r0)
         (auto simp: evaluate_argument_def and_then_def values_produced_def thrown_at_def
            is_converted_update)
  next
    case Arg_theta_in
    obtain r0 s0 where u: "use (have_theta_in c) (convert Arg_theta_in (as_double h) tS) s = (r0, s0)"
      by (cases "use (have_theta_in c) (convert Arg_theta_in (as_double h) tS) s") auto
    from c have "\<And>v. have_theta_in c = Some v \<Longrightarrow> produced I (as_double h) tS v"
      by (simp add: values_produced_def)
    from use_convert [OF conversions_keepD(3) [OF keep] s this u] u run Arg_theta_in c show ?thesis
      by (cases r0)
         (auto simp: evaluate_argument_def and_then_def values_produced_def thrown_at_def
            is_converted_update)
  next
    case Arg_num_threads
    obtain r0 s0 where u: "use (have_num_threads c) (convert Arg_num_threads (as_int h) nS) s = (r0, s0)"
      by (cases "use (have_num_threads c) (convert Arg_num_threads (as_int h) nS) s") auto
    from c have "\<And>v. have_num_threads c = Some v \<Longrightarrow> produced I (as_int h) nS v"
      by (simp add: values_produced_def)
    from use_convert [OF conversions_keepD(2) [OF keep] s this u] u run Arg_num_threads c show ?thesis
      by (cases r0)
         (auto simp: evaluate_argument_def and_then_def values_produced_def thrown_at_def
            is_converted_update)
  next
    case Arg_max_iter
    obtain r0 s0 where u: "use (have_max_iter c) (convert Arg_max_iter (as_int h) mS) s = (r0, s0)"
      by (cases "use (have_max_iter c) (convert Arg_max_iter (as_int h) mS) s") auto
    from c have "\<And>v. have_max_iter c = Some v \<Longrightarrow> produced I (as_int h) mS v"
      by (simp add: values_produced_def)
    from use_convert [OF conversions_keepD(2) [OF keep] s this u] u run Arg_max_iter c show ?thesis
      by (cases r0)
         (auto simp: evaluate_argument_def and_then_def values_produced_def thrown_at_def
            is_converted_update)
  qed
qed

lemma evaluate_in_order_run:
  assumes keep: "conversions_keep I h"
  shows "I (world s) \<Longrightarrow> values_produced I h XS dS pS tS nS mS c \<Longrightarrow>
         evaluate_in_order h XS dS pS tS nS mS ps c s = (r, s') \<Longrightarrow>
         I (world s') \<and>
         (case r of
            Inr c' \<Rightarrow> values_produced I h XS dS pS tS nS mS c' \<and>
              (\<forall>q. is_converted c' q = (q \<in> set ps \<or> is_converted c q)) \<and>
              (\<exists>qs. trace s' = trace s @ map Converted qs \<and> distinct qs \<and>
                    set qs = {q. q \<in> set ps \<and> \<not> is_converted c q})
          | Inl e \<Rightarrow>
              (\<exists>qs q. trace s' = trace s @ map Converted qs @ [Conversion_failed q] \<and>
                      thrown_at I h XS dS pS tS nS mS q e))"
proof (induction ps arbitrary: c s)
  case Nil
  then show ?case by auto
next
  case (Cons p ps)
  obtain r1 s1 where step: "evaluate_argument h XS dS pS tS nS mS p c s = (r1, s1)"
    by (cases "evaluate_argument h XS dS pS tS nS mS p c s") auto
  note first = evaluate_argument_step [OF keep Cons.prems(1,2) step]
  show ?case
  proof (cases r1)
    case (Inl e)
    with step Cons.prems(3) have "r = Inl e" "s' = s1" by (simp_all add: and_then_def)
    with first Inl show ?thesis by (auto intro!: exI [where x = "[]"])
  next
    case (Inr c1)
    with step Cons.prems(3) have rest: "evaluate_in_order h XS dS pS tS nS mS ps c1 s1 = (r, s')"
      by (simp add: and_then_def)
    from first Inr have s1: "I (world s1)" and c1: "values_produced I h XS dS pS tS nS mS c1"
      and conv1: "\<And>q. is_converted c1 q = (q = p \<or> is_converted c q)"
      and tr1: "trace s1 = trace s @ (if is_converted c p then [] else [Converted p])"
      by simp_all
    note tail = Cons.IH [OF s1 c1 rest]
    show ?thesis
    proof (cases r)
      case (Inl e)
      with tail obtain qs q where
        "trace s' = trace s1 @ map Converted qs @ [Conversion_failed q]"
        "thrown_at I h XS dS pS tS nS mS q e"
        by auto
      with tr1 have "trace s' =
          trace s @ map Converted ((if is_converted c p then [] else [p]) @ qs) @ [Conversion_failed q]"
        by simp
      with \<open>thrown_at I h XS dS pS tS nS mS q e\<close>
      have "\<exists>qs q. trace s' = trace s @ map Converted qs @ [Conversion_failed q] \<and>
          thrown_at I h XS dS pS tS nS mS q e"
        by blast
      moreover from tail have "I (world s')" by simp
      ultimately show ?thesis using Inl by simp
    next
      case (Inr c')
      with tail obtain qs where qs: "trace s' = trace s1 @ map Converted qs" "distinct qs"
        "set qs = {q. q \<in> set ps \<and> \<not> is_converted c1 q}"
        by auto
      let ?qs = "(if is_converted c p then [] else [p]) @ qs"
      from qs tr1 have "trace s' = trace s @ map Converted ?qs" by simp
      moreover from qs conv1 have "distinct ?qs" by auto
      moreover from qs conv1 have "set ?qs = {q. q \<in> set (p # ps) \<and> \<not> is_converted c q}"
        by auto
      ultimately have "\<exists>qs. trace s' = trace s @ map Converted qs \<and> distinct qs \<and>
          set qs = {q. q \<in> set (p # ps) \<and> \<not> is_converted c q}"
        by blast
      with tail Inr conv1 show ?thesis by auto
    qed
  qed
qed

lemma take_values_converted:
  assumes "have_X c = Some X" "have_no_dims_in c = Some d" "have_perplexity_in c = Some p"
    "have_theta_in c = Some t" "have_num_threads c = Some n" "have_max_iter c = Some m"
  shows "take_values h XS dS pS tS nS mS c s = (Inr (X, d, p, t, n, m), s)"
  using assms by (simp add: take_values_def and_then_def use_def)

lemma set_order_written: "set order_written = UNIV"
proof -
  have "q \<in> set order_written" for q
    by (cases q) (simp_all add: order_written_def)
  then show ?thesis by auto
qed

lemma evaluate_arguments_run:
  fixes h :: "('w, 's, 'm, 'r, 'e) host"
  assumes keep: "conversions_keep I h" and s: "I (world s)"
    and run: "evaluate_arguments h XS dS pS tS nS mS s = (r, s')"
  shows "I (world s') \<and>
         (case r of
            Inr args \<Rightarrow>
              (case args of (X, d, p, t, n, m) \<Rightarrow>
                 produced I (as_NumericMatrix h) XS X \<and> produced I (as_int h) dS d \<and>
                 produced I (as_double h) pS p \<and> produced I (as_double h) tS t \<and>
                 produced I (as_int h) nS n \<and> produced I (as_int h) mS m) \<and>
              (\<exists>qs. trace s' = trace s @ map Converted qs \<and> distinct qs \<and> set qs = UNIV)
          | Inl e \<Rightarrow>
              (\<exists>qs q. trace s' = trace s @ map Converted qs @ [Conversion_failed q] \<and>
                      thrown_at I h XS dS pS tS nS mS q e))"
proof -
  let ?ps = "argument_order h @ order_written"
  let ?c0 = "nothing_converted :: 'm converted"
  obtain r1 s1 where ev: "evaluate_in_order h XS dS pS tS nS mS ?ps ?c0 s = (r1, s1)"
    by (cases "evaluate_in_order h XS dS pS tS nS mS ?ps ?c0 s") auto
  have none: "values_produced I h XS dS pS tS nS mS ?c0"
    "\<And>q. \<not> is_converted ?c0 q"
    subgoal by (simp add: values_produced_def nothing_converted_def)
    subgoal for q by (cases q) (simp_all add: nothing_converted_def)
    done
  note first = evaluate_in_order_run [OF keep s none(1) ev]
  show ?thesis
  proof (cases r1)
    case (Inl e)
    with ev run have "r = Inl e" "s' = s1" by (simp_all add: evaluate_arguments_def and_then_def)
    with first Inl show ?thesis by simp
  next
    case (Inr c)
    with first none(2) have c: "values_produced I h XS dS pS tS nS mS c" "\<And>q. is_converted c q"
      and s1: "I (world s1)"
      using set_order_written by auto
    from first Inr
    have "\<exists>qs. trace s1 = trace s @ map Converted qs \<and> distinct qs \<and>
        set qs = {q. q \<in> set ?ps \<and> \<not> is_converted ?c0 q}"
      by simp
    moreover from none(2) set_order_written
    have "{q. q \<in> set ?ps \<and> \<not> is_converted ?c0 q} = UNIV"
      by auto
    ultimately
    have tr: "\<exists>qs. trace s1 = trace s @ map Converted qs \<and> distinct qs \<and> set qs = UNIV"
      by simp
    from c(2) [of Arg_X] c(2) [of Arg_no_dims_in] c(2) [of Arg_perplexity_in] c(2) [of Arg_theta_in]
      c(2) [of Arg_num_threads] c(2) [of Arg_max_iter]
    obtain X d p t n m where v: "have_X c = Some X" "have_no_dims_in c = Some d"
      "have_perplexity_in c = Some p" "have_theta_in c = Some t" "have_num_threads c = Some n"
      "have_max_iter c = Some m"
      by auto
    from ev Inr run take_values_converted [OF v, of h XS dS pS tS nS mS s1]
    have "r = Inr (X, d, p, t, n, m)" "s' = s1"
      by (simp_all add: evaluate_arguments_def and_then_def)
    with c(1) v tr s1 show ?thesis by (simp add: values_produced_def)
  qed
qed

lemma keep_True: "conversions_keep (\<lambda>u. True) h"
  by (simp add: conversions_keep_def)

text \<open>The same for the arguments of a call, evaluated after the constructor of the RNG scope.\<close>

lemma evaluated_Inr:
  fixes h :: "('w, 's, 'm, 'r, 'e) host"
  assumes keep: "conversions_keep I h" and w: "I (RNGScope_ctor h w)"
    and ev: "evaluate_arguments h XS dS pS tS nS mS (RNGScope_construct h \<lparr>world = w, trace = []\<rparr>) =
               (Inr (X, d, p, t, n, m), s1)"
  shows "I (world s1)"
    and "produced I (as_NumericMatrix h) XS X" "produced I (as_int h) dS d"
      "produced I (as_double h) pS p" "produced I (as_double h) tS t"
      "produced I (as_int h) nS n" "produced I (as_int h) mS m"
    and "\<exists>qs. trace s1 = RNGScope_constructed # map Converted qs \<and> distinct qs \<and> set qs = UNIV"
proof -
  from w have "I (world (RNGScope_construct h \<lparr>world = w, trace = []\<rparr>))"
    by (simp add: RNGScope_construct_def)
  from evaluate_arguments_run [OF keep this ev]
  show "I (world s1)"
    and "produced I (as_NumericMatrix h) XS X" "produced I (as_int h) dS d"
      "produced I (as_double h) pS p" "produced I (as_double h) tS t"
      "produced I (as_int h) nS n" "produced I (as_int h) mS m"
    and "\<exists>qs. trace s1 = RNGScope_constructed # map Converted qs \<and> distinct qs \<and> set qs = UNIV"
    by (simp_all add: RNGScope_construct_def)
qed

lemma evaluated_Inl:
  fixes h :: "('w, 's, 'm, 'r, 'e) host"
  assumes keep: "conversions_keep I h" and w: "I (RNGScope_ctor h w)"
    and ev: "evaluate_arguments h XS dS pS tS nS mS (RNGScope_construct h \<lparr>world = w, trace = []\<rparr>) =
               (Inl e, s1)"
  shows "I (world s1)"
    and "\<exists>qs q. trace s1 = RNGScope_constructed # map Converted qs @ [Conversion_failed q] \<and>
           thrown_at I h XS dS pS tS nS mS q e"
proof -
  from w have "I (world (RNGScope_construct h \<lparr>world = w, trace = []\<rparr>))"
    by (simp add: RNGScope_construct_def)
  from evaluate_arguments_run [OF keep this ev]
  show "I (world s1)"
    and "\<exists>qs q. trace s1 = RNGScope_constructed # map Converted qs @ [Conversion_failed q] \<and>
           thrown_at I h XS dS pS tS nS mS q e"
    by (simp_all add: RNGScope_construct_def)
qed

lemma thrown_at_thrown_by_conversion:
  "thrown_at I h XS dS pS tS nS mS q e \<Longrightarrow> thrown_by_conversion h XS dS pS tS nS mS e"
  by (cases q) (auto simp: thrown_at_def refused_def thrown_by_conversion_def)

lemma evaluated_Inl_thrown:
  assumes "evaluate_arguments h XS dS pS tS nS mS (RNGScope_construct h \<lparr>world = w, trace = []\<rparr>) =
             (Inl e, s1)"
  shows "thrown_by_conversion h XS dS pS tS nS mS e"
proof -
  from evaluated_Inl(2) [OF keep_True TrueI assms]
  obtain q where "thrown_at (\<lambda>u. True) h XS dS pS tS nS mS q e"
    by auto
  then show ?thesis
    by (rule thrown_at_thrown_by_conversion)
qed

section \<open>How a call runs\<close>

text \<open>The invocations in a trace.\<close>

lemma invocations_append: "invocations (tr @ tr') = invocations tr @ invocations tr'"
  by (simp add: invocations_def)

lemma invocations_Converted: "invocations (map Converted qs) = []"
  by (induction qs) (simp_all add: invocations_def)

lemma invocations_simps:
  "invocations [] = []"
  "invocations (RNGScope_constructed # tr) = invocations tr"
  "invocations (Conversion_failed q # tr) = invocations tr"
  "invocations (Wrapped # tr) = invocations tr"
  "invocations (RNGScope_destroyed # tr) = invocations tr"
  "invocations (Rtsne_cpp_called X d p t n m # tr) = Rtsne_cpp_called X d p t n m # invocations tr"
  by (simp_all add: invocations_def)

lemma converted_trace:
  assumes "evaluate_arguments h XS dS pS tS nS mS (RNGScope_construct h \<lparr>world = w, trace = []\<rparr>) =
             (Inr (X, d, p, t, n, m), s1)"
  shows "\<exists>qs. trace s1 = RNGScope_constructed # map Converted qs \<and> distinct qs \<and> set qs = UNIV"
  using evaluated_Inr(8) [OF keep_True TrueI assms] by simp

lemma converted_trace_no_invocation:
  assumes "evaluate_arguments h XS dS pS tS nS mS (RNGScope_construct h \<lparr>world = w, trace = []\<rparr>) =
             (Inr (X, d, p, t, n, m), s1)"
  shows "invocations (trace s1) = []"
  using converted_trace [OF assms] by (auto simp: invocations_simps invocations_Converted)

lemma failed_trace_no_invocation:
  assumes "evaluate_arguments h XS dS pS tS nS mS (RNGScope_construct h \<lparr>world = w, trace = []\<rparr>) =
             (Inl e, s1)"
  shows "invocations (trace s1) = []"
  using evaluated_Inl(2) [OF keep_True TrueI assms]
  by (auto simp: invocations_simps invocations_append invocations_Converted)

text \<open>The three ways a call can go, and what the entry point yields in each.\<close>

lemma wrapper_conversion_fails:
  assumes "evaluate_arguments h XS dS pS tS nS mS (RNGScope_construct h \<lparr>world = w, trace = []\<rparr>) =
             (Inl e, s1)"
  shows "Rtsne_multicore_Rtsne_cpp h XS dS pS tS nS mS w =
           (Signalled (fst (exception_to_r_condition h e (RNGScope_dtor h (world s1)))),
            \<lparr>world = snd (exception_to_r_condition h e (RNGScope_dtor h (world s1))),
             trace = trace s1 @ [RNGScope_destroyed]\<rparr>)"
  using assms
  by (simp add: Rtsne_multicore_Rtsne_cpp_def try_block_def END_RCPP_def and_then_def
      RNGScope_destroy_def split: prod.splits)

lemma wrapper_native_throws:
  assumes "evaluate_arguments h XS dS pS tS nS mS (RNGScope_construct h \<lparr>world = w, trace = []\<rparr>) =
             (Inr (X, d, p, t, n, m), s1)"
    and "Rtsne_cpp h X d p t n m (world s1) = (Inl e, w2)"
  shows "Rtsne_multicore_Rtsne_cpp h XS dS pS tS nS mS w =
           (Signalled (fst (exception_to_r_condition h e (RNGScope_dtor h w2))),
            \<lparr>world = snd (exception_to_r_condition h e (RNGScope_dtor h w2)),
             trace = trace s1 @ [Rtsne_cpp_called X d p t n m, RNGScope_destroyed]\<rparr>)"
  using assms
  by (simp add: Rtsne_multicore_Rtsne_cpp_def try_block_def END_RCPP_def and_then_def
      call_Rtsne_cpp_def RNGScope_destroy_def split: prod.splits)

lemma wrapper_native_returns:
  assumes "evaluate_arguments h XS dS pS tS nS mS (RNGScope_construct h \<lparr>world = w, trace = []\<rparr>) =
             (Inr (X, d, p, t, n, m), s1)"
    and "Rtsne_cpp h X d p t n m (world s1) = (Inr res, w2)"
  shows "Rtsne_multicore_Rtsne_cpp h XS dS pS tS nS mS w =
           (Returned (fst (wrap h res w2)),
            \<lparr>world = RNGScope_dtor h (snd (wrap h res w2)),
             trace = trace s1 @ [Rtsne_cpp_called X d p t n m, Wrapped, RNGScope_destroyed]\<rparr>)"
  using assms
  by (simp add: Rtsne_multicore_Rtsne_cpp_def try_block_def END_RCPP_def and_then_def
      call_Rtsne_cpp_def wrap_result_def RNGScope_destroy_def split: prod.splits)

lemma wrapper_cases [case_names conversion_fails native_throws native_returns]:
  fixes h :: "('w, 's, 'm, 'r, 'e) host"
  obtains
    (conversion_fails) e s1 where
      "evaluate_arguments h XS dS pS tS nS mS (RNGScope_construct h \<lparr>world = w, trace = []\<rparr>) =
         (Inl e, s1)"
  | (native_throws) X d p t n m s1 e w2 where
      "evaluate_arguments h XS dS pS tS nS mS (RNGScope_construct h \<lparr>world = w, trace = []\<rparr>) =
         (Inr (X, d, p, t, n, m), s1)"
      "Rtsne_cpp h X d p t n m (world s1) = (Inl e, w2)"
  | (native_returns) X d p t n m s1 res w2 where
      "evaluate_arguments h XS dS pS tS nS mS (RNGScope_construct h \<lparr>world = w, trace = []\<rparr>) =
         (Inr (X, d, p, t, n, m), s1)"
      "Rtsne_cpp h X d p t n m (world s1) = (Inr res, w2)"
proof (cases "evaluate_arguments h XS dS pS tS nS mS (RNGScope_construct h \<lparr>world = w, trace = []\<rparr>)")
  case (Pair r s1)
  show ?thesis
  proof (cases r)
    case (Inl e)
    with Pair show ?thesis by (auto intro: conversion_fails)
  next
    case (Inr args)
    obtain X d p t n m where args: "args = (X, d, p, t, n, m)"
      by (cases args) auto
    obtain r2 w2 where nat: "Rtsne_cpp h X d p t n m (world s1) = (r2, w2)"
      by (cases "Rtsne_cpp h X d p t n m (world s1)") auto
    show ?thesis
    proof (cases r2)
      case (Inl e)
      with Pair Inr args nat show ?thesis by (auto intro: native_throws)
    next
      case (Inr res)
      with Pair \<open>r = Inr args\<close> args nat show ?thesis by (auto intro: native_returns)
    qed
  qed
qed

text \<open>The invocations of a call, in each of the three.\<close>

lemma invocations_conversion_fails:
  assumes "evaluate_arguments h XS dS pS tS nS mS (RNGScope_construct h \<lparr>world = w, trace = []\<rparr>) =
             (Inl e, s1)"
  shows "invocations (trace (snd (Rtsne_multicore_Rtsne_cpp h XS dS pS tS nS mS w))) = []"
  by (simp add: wrapper_conversion_fails [OF assms] invocations_append invocations_simps
      failed_trace_no_invocation [OF assms])

lemma invocations_native_throws:
  assumes "evaluate_arguments h XS dS pS tS nS mS (RNGScope_construct h \<lparr>world = w, trace = []\<rparr>) =
             (Inr (X, d, p, t, n, m), s1)"
    and "Rtsne_cpp h X d p t n m (world s1) = (Inl e, w2)"
  shows "invocations (trace (snd (Rtsne_multicore_Rtsne_cpp h XS dS pS tS nS mS w))) =
           [Rtsne_cpp_called X d p t n m]"
  by (simp add: wrapper_native_throws [OF assms] invocations_append invocations_simps
      converted_trace_no_invocation [OF assms(1)])

lemma invocations_native_returns:
  assumes "evaluate_arguments h XS dS pS tS nS mS (RNGScope_construct h \<lparr>world = w, trace = []\<rparr>) =
             (Inr (X, d, p, t, n, m), s1)"
    and "Rtsne_cpp h X d p t n m (world s1) = (Inr res, w2)"
  shows "invocations (trace (snd (Rtsne_multicore_Rtsne_cpp h XS dS pS tS nS mS w))) =
           [Rtsne_cpp_called X d p t n m]"
  by (simp add: wrapper_native_returns [OF assms] invocations_append invocations_simps
      converted_trace_no_invocation [OF assms(1)])

section \<open>What a call leaves unchanged\<close>

text \<open>
  The wrapper changes the host state only through the operations it calls. What all of
  them leave unchanged, the evaluation of the arguments leaves unchanged, and so do the
  steps before and after the native call.
\<close>

lemma leaves_unchangedD:
  "leaves_unchanged I obs f \<Longrightarrow> I w \<Longrightarrow> I (f w) \<and> obs (f w) = obs w"
  by (simp add: leaves_unchanged_def)

lemma frame_keep:
  assumes "library_leaves_unchanged I obs h"
  shows "conversions_keep (\<lambda>u. I u \<and> obs u = obs w) h"
  using assms
  by (simp add: library_leaves_unchanged_def leaves_unchanged_def conversions_keep_def)

lemma construct_frame:
  assumes "library_leaves_unchanged I obs h" and "I w"
  shows "I (RNGScope_ctor h w) \<and> obs (RNGScope_ctor h w) = obs w"
  using assms leaves_unchangedD [of I obs "RNGScope_ctor h" w]
  by (simp add: library_leaves_unchanged_def)

lemma library_frames:
  assumes "library_leaves_unchanged I obs h" and "I w"
  shows "I (RNGScope_dtor h w) \<and> obs (RNGScope_dtor h w) = obs w"
    and "I (snd (wrap h r w)) \<and> obs (snd (wrap h r w)) = obs w"
    and "I (snd (exception_to_r_condition h e w)) \<and> obs (snd (exception_to_r_condition h e w)) = obs w"
  using assms leaves_unchangedD [of I obs "RNGScope_dtor h" w]
    leaves_unchangedD [of I obs "\<lambda>w. snd (wrap h r w)" w]
    leaves_unchangedD [of I obs "\<lambda>w. snd (exception_to_r_condition h e w)" w]
  by (simp_all add: library_leaves_unchanged_def)

lemma before_native:
  fixes h :: "('w, 's, 'm, 'r, 'e) host"
  assumes lib: "library_leaves_unchanged I obs h" and w: "I w"
    and conv: "evaluate_arguments h XS dS pS tS nS mS (RNGScope_construct h \<lparr>world = w, trace = []\<rparr>) =
                 (r, s1)"
  shows "I (world s1) \<and> obs (world s1) = obs w"
proof -
  from construct_frame [OF lib w]
  have "I (world (RNGScope_construct h \<lparr>world = w, trace = []\<rparr>)) \<and>
        obs (world (RNGScope_construct h \<lparr>world = w, trace = []\<rparr>)) = obs w"
    by (simp add: RNGScope_construct_def)
  from evaluate_arguments_run [OF frame_keep [OF lib] this conv] show ?thesis
    by simp
qed

lemma after_native:
  assumes lib: "library_leaves_unchanged I obs h" and w2: "I w2"
  shows "obs (snd (exception_to_r_condition h e (RNGScope_dtor h w2))) = obs w2"
    and "obs (RNGScope_dtor h (snd (wrap h res w2))) = obs w2"
proof -
  from library_frames(1) [OF lib w2] library_frames(3) [OF lib, of "RNGScope_dtor h w2" e]
  show "obs (snd (exception_to_r_condition h e (RNGScope_dtor h w2))) = obs w2"
    by simp
  from library_frames(2) [OF lib w2, of res] library_frames(1) [OF lib, of "snd (wrap h res w2)"]
  show "obs (RNGScope_dtor h (snd (wrap h res w2))) = obs w2"
    by simp
qed

lemma native_keepsD:
  assumes "native_keeps I h" and "I w" and "Rtsne_cpp h X d p t n m w = (r, w')"
  shows "I w'"
proof -
  from assms(1,2) have "I (snd (Rtsne_cpp h X d p t n m w))"
    unfolding native_keeps_def by blast
  with assms(3) show ?thesis by simp
qed

section \<open>The example host, evaluated\<close>

lemmas double_defs = IntegerFromReal_def double_truncated_def double_value_def
  double_exponent_def double_significand_def NA_INTEGER_def

lemma R_host_simps:
  "RNGScope_ctor (R_host ord native) = GetRNGstate"
  "RNGScope_dtor (R_host ord native) = PutRNGstate"
  "as_NumericMatrix (R_host ord native) = R_as_NumericMatrix"
  "as_int (R_host ord native) = R_as_int"
  "as_double (R_host ord native) = R_as_double"
  "Rtsne_cpp (R_host ord native) = native"
  "wrap (R_host ord native) = R_wrap"
  "exception_to_r_condition (R_host ord native) = R_condition"
  "argument_order (R_host ord native) = ord"
  by (simp_all add: R_host_def)

lemma example_heap:
  "heap example_world 11 = REALSXP_matrix example_matrix"
  "heap example_world 12 = REALSXP [0x4000000000000000]"
  "heap example_world 13 = REALSXP [0x3FF0000000000000]"
  "heap example_world 14 = REALSXP [0x3FE0000000000000]"
  "heap example_world 15 = REALSXP [0x3FF0000000000000]"
  "heap example_world 16 = REALSXP [0x408F400000000000]"
  "heap example_world 17 = STRSXP [''two'']"
  "heap example_world 18 = REALSXP_matrix \<lparr>nrow = 0, ncol = 2, elements = []\<rparr>"
  by (simp_all add: example_world_def)

lemma heap_GetRNGstate: "heap (GetRNGstate w) = heap w"
  by (simp add: GetRNGstate_def)

lemma heap_PutRNGstate: "heap (PutRNGstate w) = heap w"
  by (simp add: PutRNGstate_def)

lemma allocated_GetRNGstate: "allocated (GetRNGstate w) = allocated w"
  by (simp add: GetRNGstate_def)

lemma allocated_PutRNGstate: "allocated (PutRNGstate w) = allocated w"
  by (simp add: PutRNGstate_def)

lemma allocated_example: "allocated example_world = 19"
  by (simp add: example_world_def)

lemma IntegerFromReal_examples:
  "IntegerFromReal 0x4000000000000000 = 2"
  "IntegerFromReal 0x3FF0000000000000 = 1"
  "IntegerFromReal 0x408F400000000000 = 1000"
  by (simp_all add: double_defs)

lemma valid_example:
  "valid_input example_matrix 2 0x3FF0000000000000 0x3FE0000000000000 1 1000"
  by (simp add: valid_input_def example_matrix_def double_value_def double_exponent_def
      double_significand_def)

lemma invalid_example:
  "\<not> valid_input example_matrix 2 0x408F400000000000 0x3FE0000000000000 1 1000"
  by (simp add: valid_input_def example_matrix_def double_value_def double_exponent_def
      double_significand_def)

lemma example_native:
  "spec_Rtsne_cpp zero_engine 11 2 0x3FF0000000000000 0x3FE0000000000000 1 1000
     (GetRNGstate example_world) =
   (Inr \<lparr>embedding = \<lparr>nrow = 4, ncol = 2, elements = replicate 8 0\<rparr>, cost = 0, iterations = 1000\<rparr>,
    GetRNGstate example_world)"
  by (simp add: spec_Rtsne_cpp_def heap_GetRNGstate example_heap valid_example zero_engine_def)
     (simp add: example_matrix_def)

lemma example_native_refuses:
  "spec_Rtsne_cpp zero_engine 11 2 0x408F400000000000 0x3FE0000000000000 1 1000
     (GetRNGstate example_world) =
   (Inl NativeComputationError, GetRNGstate example_world)"
  by (simp add: spec_Rtsne_cpp_def heap_GetRNGstate example_heap invalid_example)

text \<open>
  On this host a conversion reads the heap and leaves the state as it is. What it
  produces, and when it throws, is decided by the object at the address it is given.
\<close>

lemma R_keep: "conversions_keep (\<lambda>u. u = w0) (R_host ord native)"
  by (auto simp: conversions_keep_def R_host_simps R_as_NumericMatrix_def R_as_int_def
      R_as_double_def split: robject.splits list.splits)

lemma R_produced:
  "produced (\<lambda>u. u = w0) R_as_NumericMatrix x X \<Longrightarrow> X = x \<and> (\<exists>M. heap w0 x = REALSXP_matrix M)"
  "produced (\<lambda>u. u = w0) R_as_int x d \<Longrightarrow> \<exists>v. heap w0 x = REALSXP [v] \<and> d = IntegerFromReal v"
  "produced (\<lambda>u. u = w0) R_as_double x p \<Longrightarrow> heap w0 x = REALSXP [p]"
  by (auto simp: produced_def R_as_NumericMatrix_def R_as_int_def R_as_double_def
      split: robject.splits list.splits)

lemma R_refused:
  "refused (\<lambda>u. u = w0) R_as_NumericMatrix x e \<Longrightarrow>
     e = ArgumentTypeError \<and> (\<forall>M. heap w0 x \<noteq> REALSXP_matrix M)"
  "refused (\<lambda>u. u = w0) R_as_int x e \<Longrightarrow> e = ArgumentTypeError \<and> (\<forall>v. heap w0 x \<noteq> REALSXP [v])"
  "refused (\<lambda>u. u = w0) R_as_double x e \<Longrightarrow> e = ArgumentTypeError \<and> (\<forall>v. heap w0 x \<noteq> REALSXP [v])"
  by (auto simp: refused_def R_as_NumericMatrix_def R_as_int_def R_as_double_def
      split: robject.splits list.splits)

text \<open>
  So the evaluation of the arguments, in whatever order, yields the six values when the
  six objects are a numeric matrix and five numbers, and throws when one of them is not.
\<close>

lemma R_evaluated_Inr:
  assumes "evaluate_arguments (R_host ord native) XS dS pS tS nS mS s = (Inr (X, d, p, t, n, m), s')"
  shows "world s' = world s" and "X = XS" and "\<exists>M. heap (world s) XS = REALSXP_matrix M"
    and "\<exists>v. heap (world s) dS = REALSXP [v] \<and> d = IntegerFromReal v"
    and "heap (world s) pS = REALSXP [p]" and "heap (world s) tS = REALSXP [t]"
    and "\<exists>v. heap (world s) nS = REALSXP [v] \<and> n = IntegerFromReal v"
    and "\<exists>v. heap (world s) mS = REALSXP [v] \<and> m = IntegerFromReal v"
proof -
  note run = evaluate_arguments_run [OF R_keep [of "world s" ord native] refl assms]
  from run show "world s' = world s" by simp
  from run have got: "produced (\<lambda>u. u = world s) R_as_NumericMatrix XS X"
    "produced (\<lambda>u. u = world s) R_as_int dS d" "produced (\<lambda>u. u = world s) R_as_double pS p"
    "produced (\<lambda>u. u = world s) R_as_double tS t" "produced (\<lambda>u. u = world s) R_as_int nS n"
    "produced (\<lambda>u. u = world s) R_as_int mS m"
    by (simp_all add: R_host_simps)
  from R_produced(1) [OF got(1)] show "X = XS" "\<exists>M. heap (world s) XS = REALSXP_matrix M"
    by simp_all
  from R_produced(2) [OF got(2)] show "\<exists>v. heap (world s) dS = REALSXP [v] \<and> d = IntegerFromReal v" .
  from R_produced(3) [OF got(3)] show "heap (world s) pS = REALSXP [p]" .
  from R_produced(3) [OF got(4)] show "heap (world s) tS = REALSXP [t]" .
  from R_produced(2) [OF got(5)] show "\<exists>v. heap (world s) nS = REALSXP [v] \<and> n = IntegerFromReal v" .
  from R_produced(2) [OF got(6)] show "\<exists>v. heap (world s) mS = REALSXP [v] \<and> m = IntegerFromReal v" .
qed

lemma R_thrown_at:
  assumes "thrown_at (\<lambda>u. u = w0) (R_host ord native) XS dS pS tS nS mS q e"
  shows "e = ArgumentTypeError"
    and "case q of
           Arg_X \<Rightarrow> \<forall>M. heap w0 XS \<noteq> REALSXP_matrix M
         | Arg_no_dims_in \<Rightarrow> \<forall>v. heap w0 dS \<noteq> REALSXP [v]
         | Arg_perplexity_in \<Rightarrow> \<forall>v. heap w0 pS \<noteq> REALSXP [v]
         | Arg_theta_in \<Rightarrow> \<forall>v. heap w0 tS \<noteq> REALSXP [v]
         | Arg_num_threads \<Rightarrow> \<forall>v. heap w0 nS \<noteq> REALSXP [v]
         | Arg_max_iter \<Rightarrow> \<forall>v. heap w0 mS \<noteq> REALSXP [v]"
proof -
  from assms
  have "e = ArgumentTypeError \<and>
        (case q of
           Arg_X \<Rightarrow> \<forall>M. heap w0 XS \<noteq> REALSXP_matrix M
         | Arg_no_dims_in \<Rightarrow> \<forall>v. heap w0 dS \<noteq> REALSXP [v]
         | Arg_perplexity_in \<Rightarrow> \<forall>v. heap w0 pS \<noteq> REALSXP [v]
         | Arg_theta_in \<Rightarrow> \<forall>v. heap w0 tS \<noteq> REALSXP [v]
         | Arg_num_threads \<Rightarrow> \<forall>v. heap w0 nS \<noteq> REALSXP [v]
         | Arg_max_iter \<Rightarrow> \<forall>v. heap w0 mS \<noteq> REALSXP [v])"
    by (cases q) (auto simp: thrown_at_def R_host_simps dest!: R_refused)
  then show "e = ArgumentTypeError"
    and "case q of
           Arg_X \<Rightarrow> \<forall>M. heap w0 XS \<noteq> REALSXP_matrix M
         | Arg_no_dims_in \<Rightarrow> \<forall>v. heap w0 dS \<noteq> REALSXP [v]
         | Arg_perplexity_in \<Rightarrow> \<forall>v. heap w0 pS \<noteq> REALSXP [v]
         | Arg_theta_in \<Rightarrow> \<forall>v. heap w0 tS \<noteq> REALSXP [v]
         | Arg_num_threads \<Rightarrow> \<forall>v. heap w0 nS \<noteq> REALSXP [v]
         | Arg_max_iter \<Rightarrow> \<forall>v. heap w0 mS \<noteq> REALSXP [v]"
    by simp_all
qed

lemma R_evaluated_Inl:
  assumes "evaluate_arguments (R_host ord native) XS dS pS tS nS mS s = (Inl e, s')"
  shows "world s' = world s" and "e = ArgumentTypeError"
    and "\<exists>qs q. trace s' = trace s @ map Converted qs @ [Conversion_failed q] \<and>
           (case q of
              Arg_X \<Rightarrow> \<forall>M. heap (world s) XS \<noteq> REALSXP_matrix M
            | Arg_no_dims_in \<Rightarrow> \<forall>v. heap (world s) dS \<noteq> REALSXP [v]
            | Arg_perplexity_in \<Rightarrow> \<forall>v. heap (world s) pS \<noteq> REALSXP [v]
            | Arg_theta_in \<Rightarrow> \<forall>v. heap (world s) tS \<noteq> REALSXP [v]
            | Arg_num_threads \<Rightarrow> \<forall>v. heap (world s) nS \<noteq> REALSXP [v]
            | Arg_max_iter \<Rightarrow> \<forall>v. heap (world s) mS \<noteq> REALSXP [v])"
proof -
  note run = evaluate_arguments_run [OF R_keep [of "world s" ord native] refl assms]
  from run show "world s' = world s" by simp
  from run obtain qs q where tr: "trace s' = trace s @ map Converted qs @ [Conversion_failed q]"
    and thrown: "thrown_at (\<lambda>u. u = world s) (R_host ord native) XS dS pS tS nS mS q e"
    by auto
  from R_thrown_at(1) [OF thrown] show "e = ArgumentTypeError" .
  from tr R_thrown_at(2) [OF thrown]
  show "\<exists>qs q. trace s' = trace s @ map Converted qs @ [Conversion_failed q] \<and>
           (case q of
              Arg_X \<Rightarrow> \<forall>M. heap (world s) XS \<noteq> REALSXP_matrix M
            | Arg_no_dims_in \<Rightarrow> \<forall>v. heap (world s) dS \<noteq> REALSXP [v]
            | Arg_perplexity_in \<Rightarrow> \<forall>v. heap (world s) pS \<noteq> REALSXP [v]
            | Arg_theta_in \<Rightarrow> \<forall>v. heap (world s) tS \<noteq> REALSXP [v]
            | Arg_num_threads \<Rightarrow> \<forall>v. heap (world s) nS \<noteq> REALSXP [v]
            | Arg_max_iter \<Rightarrow> \<forall>v. heap (world s) mS \<noteq> REALSXP [v])"
    by blast
qed

text \<open>The arguments of a call on this host: they are evaluated in the state the constructor left.\<close>

lemma R_arguments_convert:
  assumes "heap w XS = REALSXP_matrix M" "heap w dS = REALSXP [dv]" "heap w pS = REALSXP [pv]"
    "heap w tS = REALSXP [tv]" "heap w nS = REALSXP [nv]" "heap w mS = REALSXP [mv]"
  shows "\<exists>s1. evaluate_arguments (R_host ord native) XS dS pS tS nS mS
                (RNGScope_construct (R_host ord native) \<lparr>world = w, trace = []\<rparr>) =
              (Inr (XS, IntegerFromReal dv, pv, tv, IntegerFromReal nv, IntegerFromReal mv), s1) \<and>
              world s1 = GetRNGstate w"
proof -
  let ?s = "RNGScope_construct (R_host ord native) \<lparr>world = w, trace = []\<rparr>"
  have s: "world ?s = GetRNGstate w"
    by (simp add: RNGScope_construct_def R_host_simps)
  obtain r s1 where ev: "evaluate_arguments (R_host ord native) XS dS pS tS nS mS ?s = (r, s1)"
    by (cases "evaluate_arguments (R_host ord native) XS dS pS tS nS mS ?s") auto
  show ?thesis
  proof (cases r)
    case (Inl e)
    with ev have "evaluate_arguments (R_host ord native) XS dS pS tS nS mS ?s = (Inl e, s1)"
      by simp
    from R_evaluated_Inl(3) [OF this] obtain q where
      "case q of
         Arg_X \<Rightarrow> \<forall>M. heap (world ?s) XS \<noteq> REALSXP_matrix M
       | Arg_no_dims_in \<Rightarrow> \<forall>v. heap (world ?s) dS \<noteq> REALSXP [v]
       | Arg_perplexity_in \<Rightarrow> \<forall>v. heap (world ?s) pS \<noteq> REALSXP [v]
       | Arg_theta_in \<Rightarrow> \<forall>v. heap (world ?s) tS \<noteq> REALSXP [v]
       | Arg_num_threads \<Rightarrow> \<forall>v. heap (world ?s) nS \<noteq> REALSXP [v]
       | Arg_max_iter \<Rightarrow> \<forall>v. heap (world ?s) mS \<noteq> REALSXP [v]"
      by blast
    with assms have False
      by (cases q) (simp_all add: s heap_GetRNGstate)
    then show ?thesis ..
  next
    case (Inr args)
    obtain X d p t n m where args: "args = (X, d, p, t, n, m)"
      by (cases args) auto
    from ev Inr args
    have ev': "evaluate_arguments (R_host ord native) XS dS pS tS nS mS ?s =
        (Inr (X, d, p, t, n, m), s1)"
      by simp
    from R_evaluated_Inr [OF ev'] assms
    have "world s1 = GetRNGstate w" "X = XS" "d = IntegerFromReal dv" "p = pv" "t = tv"
      "n = IntegerFromReal nv" "m = IntegerFromReal mv"
      by (simp_all add: s heap_GetRNGstate)
    with ev' show ?thesis by simp
  qed
qed

lemma R_arguments_refused:
  assumes "(\<forall>M. heap w XS \<noteq> REALSXP_matrix M) \<or> (\<forall>v. heap w dS \<noteq> REALSXP [v]) \<or>
           (\<forall>v. heap w pS \<noteq> REALSXP [v]) \<or> (\<forall>v. heap w tS \<noteq> REALSXP [v]) \<or>
           (\<forall>v. heap w nS \<noteq> REALSXP [v]) \<or> (\<forall>v. heap w mS \<noteq> REALSXP [v])"
  shows "\<exists>s1. evaluate_arguments (R_host ord native) XS dS pS tS nS mS
                (RNGScope_construct (R_host ord native) \<lparr>world = w, trace = []\<rparr>) =
              (Inl ArgumentTypeError, s1) \<and>
              world s1 = GetRNGstate w"
proof -
  let ?s = "RNGScope_construct (R_host ord native) \<lparr>world = w, trace = []\<rparr>"
  have s: "world ?s = GetRNGstate w"
    by (simp add: RNGScope_construct_def R_host_simps)
  obtain r s1 where ev: "evaluate_arguments (R_host ord native) XS dS pS tS nS mS ?s = (r, s1)"
    by (cases "evaluate_arguments (R_host ord native) XS dS pS tS nS mS ?s") auto
  show ?thesis
  proof (cases r)
    case (Inl e)
    with ev have ev': "evaluate_arguments (R_host ord native) XS dS pS tS nS mS ?s = (Inl e, s1)"
      by simp
    from R_evaluated_Inl(1,2) [OF ev'] ev' show ?thesis
      by (simp add: s)
  next
    case (Inr args)
    obtain X d p t n m where args: "args = (X, d, p, t, n, m)"
      by (cases args) auto
    from ev Inr args
    have ev': "evaluate_arguments (R_host ord native) XS dS pS tS nS mS ?s =
        (Inr (X, d, p, t, n, m), s1)"
      by simp
    from R_evaluated_Inr(3-8) [OF ev'] assms have False
      by (auto simp: s heap_GetRNGstate)
    then show ?thesis ..
  qed
qed

text \<open>A call on this host, in each of the three ways it can go.\<close>

lemma R_call_returns:
  assumes "heap w XS = REALSXP_matrix M" "heap w dS = REALSXP [dv]" "heap w pS = REALSXP [pv]"
    "heap w tS = REALSXP [tv]" "heap w nS = REALSXP [nv]" "heap w mS = REALSXP [mv]"
    and call: "native XS (IntegerFromReal dv) pv tv (IntegerFromReal nv) (IntegerFromReal mv)
                 (GetRNGstate w) = (Inr res, w2)"
  shows "fst (Rtsne_multicore_Rtsne_cpp (R_host ord native) XS dS pS tS nS mS w) =
           Returned (fst (R_wrap res w2))"
    and "world (snd (Rtsne_multicore_Rtsne_cpp (R_host ord native) XS dS pS tS nS mS w)) =
           PutRNGstate (snd (R_wrap res w2))"
    and "invocations (trace (snd (Rtsne_multicore_Rtsne_cpp (R_host ord native) XS dS pS tS nS mS w))) =
           [Rtsne_cpp_called XS (IntegerFromReal dv) pv tv (IntegerFromReal nv) (IntegerFromReal mv)]"
proof -
  from R_arguments_convert [OF assms(1-6), of ord native] obtain s1 where
    ev: "evaluate_arguments (R_host ord native) XS dS pS tS nS mS
           (RNGScope_construct (R_host ord native) \<lparr>world = w, trace = []\<rparr>) =
         (Inr (XS, IntegerFromReal dv, pv, tv, IntegerFromReal nv, IntegerFromReal mv), s1)"
    and s1: "world s1 = GetRNGstate w"
    by blast
  from call s1
  have call': "Rtsne_cpp (R_host ord native) XS (IntegerFromReal dv) pv tv (IntegerFromReal nv)
      (IntegerFromReal mv) (world s1) = (Inr res, w2)"
    by (simp add: R_host_simps)
  show "fst (Rtsne_multicore_Rtsne_cpp (R_host ord native) XS dS pS tS nS mS w) =
           Returned (fst (R_wrap res w2))"
    and "world (snd (Rtsne_multicore_Rtsne_cpp (R_host ord native) XS dS pS tS nS mS w)) =
           PutRNGstate (snd (R_wrap res w2))"
    by (simp_all add: wrapper_native_returns [OF ev call'] R_host_simps)
  show "invocations (trace (snd (Rtsne_multicore_Rtsne_cpp (R_host ord native) XS dS pS tS nS mS w))) =
           [Rtsne_cpp_called XS (IntegerFromReal dv) pv tv (IntegerFromReal nv) (IntegerFromReal mv)]"
    by (rule invocations_native_returns [OF ev call'])
qed

lemma R_call_throws:
  assumes "heap w XS = REALSXP_matrix M" "heap w dS = REALSXP [dv]" "heap w pS = REALSXP [pv]"
    "heap w tS = REALSXP [tv]" "heap w nS = REALSXP [nv]" "heap w mS = REALSXP [mv]"
    and call: "native XS (IntegerFromReal dv) pv tv (IntegerFromReal nv) (IntegerFromReal mv)
                 (GetRNGstate w) = (Inl e, w2)"
  shows "fst (Rtsne_multicore_Rtsne_cpp (R_host ord native) XS dS pS tS nS mS w) =
           Signalled (fst (R_condition e (PutRNGstate w2)))"
    and "world (snd (Rtsne_multicore_Rtsne_cpp (R_host ord native) XS dS pS tS nS mS w)) =
           snd (R_condition e (PutRNGstate w2))"
    and "invocations (trace (snd (Rtsne_multicore_Rtsne_cpp (R_host ord native) XS dS pS tS nS mS w))) =
           [Rtsne_cpp_called XS (IntegerFromReal dv) pv tv (IntegerFromReal nv) (IntegerFromReal mv)]"
proof -
  from R_arguments_convert [OF assms(1-6), of ord native] obtain s1 where
    ev: "evaluate_arguments (R_host ord native) XS dS pS tS nS mS
           (RNGScope_construct (R_host ord native) \<lparr>world = w, trace = []\<rparr>) =
         (Inr (XS, IntegerFromReal dv, pv, tv, IntegerFromReal nv, IntegerFromReal mv), s1)"
    and s1: "world s1 = GetRNGstate w"
    by blast
  from call s1
  have call': "Rtsne_cpp (R_host ord native) XS (IntegerFromReal dv) pv tv (IntegerFromReal nv)
      (IntegerFromReal mv) (world s1) = (Inl e, w2)"
    by (simp add: R_host_simps)
  show "fst (Rtsne_multicore_Rtsne_cpp (R_host ord native) XS dS pS tS nS mS w) =
           Signalled (fst (R_condition e (PutRNGstate w2)))"
    and "world (snd (Rtsne_multicore_Rtsne_cpp (R_host ord native) XS dS pS tS nS mS w)) =
           snd (R_condition e (PutRNGstate w2))"
    by (simp_all add: wrapper_native_throws [OF ev call'] R_host_simps)
  show "invocations (trace (snd (Rtsne_multicore_Rtsne_cpp (R_host ord native) XS dS pS tS nS mS w))) =
           [Rtsne_cpp_called XS (IntegerFromReal dv) pv tv (IntegerFromReal nv) (IntegerFromReal mv)]"
    by (rule invocations_native_throws [OF ev call'])
qed

lemma R_call_refused:
  assumes "(\<forall>M. heap w XS \<noteq> REALSXP_matrix M) \<or> (\<forall>v. heap w dS \<noteq> REALSXP [v]) \<or>
           (\<forall>v. heap w pS \<noteq> REALSXP [v]) \<or> (\<forall>v. heap w tS \<noteq> REALSXP [v]) \<or>
           (\<forall>v. heap w nS \<noteq> REALSXP [v]) \<or> (\<forall>v. heap w mS \<noteq> REALSXP [v])"
  shows "fst (Rtsne_multicore_Rtsne_cpp (R_host ord native) XS dS pS tS nS mS w) =
           Signalled (fst (R_condition ArgumentTypeError (PutRNGstate (GetRNGstate w))))"
    and "world (snd (Rtsne_multicore_Rtsne_cpp (R_host ord native) XS dS pS tS nS mS w)) =
           snd (R_condition ArgumentTypeError (PutRNGstate (GetRNGstate w)))"
    and "invocations (trace (snd (Rtsne_multicore_Rtsne_cpp (R_host ord native) XS dS pS tS nS mS w))) = []"
proof -
  from R_arguments_refused [OF assms, of ord native] obtain s1 where
    ev: "evaluate_arguments (R_host ord native) XS dS pS tS nS mS
           (RNGScope_construct (R_host ord native) \<lparr>world = w, trace = []\<rparr>) =
         (Inl ArgumentTypeError, s1)"
    and s1: "world s1 = GetRNGstate w"
    by blast
  show "fst (Rtsne_multicore_Rtsne_cpp (R_host ord native) XS dS pS tS nS mS w) =
           Signalled (fst (R_condition ArgumentTypeError (PutRNGstate (GetRNGstate w))))"
    and "world (snd (Rtsne_multicore_Rtsne_cpp (R_host ord native) XS dS pS tS nS mS w)) =
           snd (R_condition ArgumentTypeError (PutRNGstate (GetRNGstate w)))"
    by (simp_all add: wrapper_conversion_fails [OF ev] R_host_simps s1)
  show "invocations (trace (snd (Rtsne_multicore_Rtsne_cpp (R_host ord native) XS dS pS tS nS mS w))) = []"
    by (rule invocations_conversion_fails [OF ev])
qed

text \<open>What the state of this host holds after its operations.\<close>

lemma Random_seed_PutRNGstate: "Random_seed (PutRNGstate w) = Some (rng w)"
  by (simp add: PutRNGstate_def)

lemma rng_R_wrap: "rng (snd (R_wrap r w)) = rng w"
  by (simp add: R_wrap_def allocate_def)

lemma rng_GetRNGstate_example: "rng (GetRNGstate example_world) = 5489"
  by (simp add: GetRNGstate_def example_world_def)

lemma heap_R_wrap_other: "a \<noteq> allocated w \<Longrightarrow> heap (snd (R_wrap r w)) a = heap w a"
  by (simp add: R_wrap_def allocate_def)

lemma heap_allocate: "heap (snd (allocate obj w)) (fst (allocate obj w)) = obj"
  by (simp add: allocate_def)

lemma heap_R_condition: "heap (snd (R_condition e w)) (fst (R_condition e w)) = Condition e"
  by (simp add: R_condition_def heap_allocate)

lemma heap_R_wrap: "heap (PutRNGstate (snd (R_wrap r w))) (fst (R_wrap r w)) = VECSXP r"
  by (simp add: R_wrap_def heap_allocate heap_PutRNGstate)

lemma fst_R_wrap: "fst (R_wrap r w) = allocated w"
  by (simp add: R_wrap_def allocate_def)

lemma fst_R_condition: "fst (R_condition e w) = allocated w"
  by (simp add: R_condition_def allocate_def)

text \<open>
  On this host the library's operations leave an allocated object as it is: they read
  the heap, or they allocate a fresh object.
\<close>

lemma R_library_leaves_unchanged:
  "library_leaves_unchanged (\<lambda>w. a < allocated w) (\<lambda>w. heap w a) (R_host ord native)"
  by (auto simp: library_leaves_unchanged_def leaves_unchanged_def R_host_simps GetRNGstate_def
      PutRNGstate_def R_as_NumericMatrix_def R_as_int_def R_as_double_def R_wrap_def
      R_condition_def allocate_def split: robject.splits list.splits)

lemma snd_spec_Rtsne_cpp: "snd (spec_Rtsne_cpp engine X d p t n m w) = w"
  by (simp add: spec_Rtsne_cpp_def split: robject.splits prod.splits)

lemma spec_native_leaves_unchanged:
  "native_leaves_unchanged I obs (R_host ord (spec_Rtsne_cpp engine))"
  by (simp add: native_leaves_unchanged_def leaves_unchanged_def R_host_simps snd_spec_Rtsne_cpp)

lemma in_place_native_keeps:
  "native_keeps (\<lambda>w. a < allocated w) (R_host ord in_place_Rtsne_cpp)"
  by (simp add: native_keeps_def R_host_simps in_place_Rtsne_cpp_def split: robject.splits)

text \<open>The routine that works in place, on the example matrix and on the matrix without rows.\<close>

lemma in_place_example:
  "in_place_Rtsne_cpp 11 2 0x3FF0000000000000 0x3FE0000000000000 1 1000 (GetRNGstate example_world) =
     (Inr \<lparr>embedding = \<lparr>nrow = 4, ncol = 2, elements = []\<rparr>, cost = 0, iterations = 1000\<rparr>,
      (GetRNGstate example_world)\<lparr>heap := (heap (GetRNGstate example_world))
         (11 := REALSXP_matrix \<lparr>nrow = 4, ncol = 2, elements = [0, 0, 0, 0, 0, 0, 0, 0]\<rparr>)\<rparr>)"
  by (simp add: in_place_Rtsne_cpp_def heap_GetRNGstate example_heap)
     (simp add: example_matrix_def)



lemma received_simps:
  "received (GetRNGstate w) = received w"
  "received (PutRNGstate w) = received w"
  "received (snd (R_wrap r w)) = received w"
  "received example_world = []"
  by (simp_all add: GetRNGstate_def PutRNGstate_def R_wrap_def allocate_def example_world_def)

lemma example_arguments:
  "\<exists>s1. evaluate_arguments (R_host ord native) 11 12 13 14 15 16
           (RNGScope_construct (R_host ord native) \<lparr>world = example_world, trace = []\<rparr>) =
         (Inr (11, 2, 0x3FF0000000000000, 0x3FE0000000000000, 1, 1000), s1) \<and>
         world s1 = GetRNGstate example_world"
  using R_arguments_convert [OF example_heap(1-6), of ord native]
  by (simp add: IntegerFromReal_examples)

lemma example_arguments_refused:
  "\<exists>s1. evaluate_arguments (R_host ord native) 11 17 13 14 15 16
           (RNGScope_construct (R_host ord native) \<lparr>world = example_world, trace = []\<rparr>) =
         (Inl ArgumentTypeError, s1) \<and>
         world s1 = GetRNGstate example_world"
  by (rule R_arguments_refused) (simp add: example_heap)

lemma example_arguments_perplexity:
  "\<exists>s1. evaluate_arguments (R_host ord native) 11 12 16 14 15 16
           (RNGScope_construct (R_host ord native) \<lparr>world = example_world, trace = []\<rparr>) =
         (Inr (11, 2, 0x408F400000000000, 0x3FE0000000000000, 1, 1000), s1) \<and>
         world s1 = GetRNGstate example_world"
  using R_arguments_convert
    [OF example_heap(1) example_heap(2) example_heap(6) example_heap(4) example_heap(5)
       example_heap(6), of ord native]
  by (simp add: IntegerFromReal_examples)


lemma example_allocated:
  "fst (R_wrap r (GetRNGstate example_world)) = 19"
  "fst (R_condition e (PutRNGstate (GetRNGstate example_world))) = 19"
  by (simp_all add: fst_R_wrap fst_R_condition allocated_GetRNGstate allocated_PutRNGstate
      allocated_example)

text \<open>The example call, with the routine of the spec and with the routine that works in place.\<close>

lemma example_call:
  "fst (Rtsne_multicore_Rtsne_cpp (R_host ord (spec_Rtsne_cpp zero_engine))
     11 12 13 14 15 16 example_world) = Returned 19"
  "world (snd (Rtsne_multicore_Rtsne_cpp (R_host ord (spec_Rtsne_cpp zero_engine))
     11 12 13 14 15 16 example_world)) =
   PutRNGstate (snd (R_wrap \<lparr>embedding = \<lparr>nrow = 4, ncol = 2, elements = replicate 8 0\<rparr>,
                            cost = 0, iterations = 1000\<rparr> (GetRNGstate example_world)))"
  "invocations (trace (snd (Rtsne_multicore_Rtsne_cpp (R_host ord (spec_Rtsne_cpp zero_engine))
     11 12 13 14 15 16 example_world))) =
   [Rtsne_cpp_called 11 2 0x3FF0000000000000 0x3FE0000000000000 1 1000]"
proof -
  have call: "spec_Rtsne_cpp zero_engine 11 (IntegerFromReal 0x4000000000000000) 0x3FF0000000000000
      0x3FE0000000000000 (IntegerFromReal 0x3FF0000000000000) (IntegerFromReal 0x408F400000000000)
      (GetRNGstate example_world) =
      (Inr \<lparr>embedding = \<lparr>nrow = 4, ncol = 2, elements = replicate 8 0\<rparr>, cost = 0,
             iterations = 1000\<rparr>, GetRNGstate example_world)"
    by (simp add: IntegerFromReal_examples example_native)
  note run = R_call_returns [where native = "spec_Rtsne_cpp zero_engine" and ord = ord,
      OF example_heap(1-6) call]
  from run(1) show "fst (Rtsne_multicore_Rtsne_cpp (R_host ord (spec_Rtsne_cpp zero_engine))
     11 12 13 14 15 16 example_world) = Returned 19"
    by (simp add: example_allocated)
  from run(2) show "world (snd (Rtsne_multicore_Rtsne_cpp (R_host ord (spec_Rtsne_cpp zero_engine))
     11 12 13 14 15 16 example_world)) =
   PutRNGstate (snd (R_wrap \<lparr>embedding = \<lparr>nrow = 4, ncol = 2, elements = replicate 8 0\<rparr>,
                            cost = 0, iterations = 1000\<rparr> (GetRNGstate example_world)))" .
  from run(3) show "invocations (trace (snd (Rtsne_multicore_Rtsne_cpp
     (R_host ord (spec_Rtsne_cpp zero_engine)) 11 12 13 14 15 16 example_world))) =
   [Rtsne_cpp_called 11 2 0x3FF0000000000000 0x3FE0000000000000 1 1000]"
    by (simp add: IntegerFromReal_examples)
qed

lemma in_place_example_call:
  "world (snd (Rtsne_multicore_Rtsne_cpp (R_host ord in_place_Rtsne_cpp)
     11 12 13 14 15 16 example_world)) =
   PutRNGstate (snd (R_wrap \<lparr>embedding = \<lparr>nrow = 4, ncol = 2, elements = []\<rparr>, cost = 0,
                            iterations = 1000\<rparr>
       ((GetRNGstate example_world)\<lparr>heap := (heap (GetRNGstate example_world))
          (11 := REALSXP_matrix \<lparr>nrow = 4, ncol = 2, elements = [0, 0, 0, 0, 0, 0, 0, 0]\<rparr>)\<rparr>)))"
proof -
  have call: "in_place_Rtsne_cpp 11 (IntegerFromReal 0x4000000000000000) 0x3FF0000000000000
      0x3FE0000000000000 (IntegerFromReal 0x3FF0000000000000) (IntegerFromReal 0x408F400000000000)
      (GetRNGstate example_world) =
      (Inr \<lparr>embedding = \<lparr>nrow = 4, ncol = 2, elements = []\<rparr>, cost = 0, iterations = 1000\<rparr>,
       (GetRNGstate example_world)\<lparr>heap := (heap (GetRNGstate example_world))
          (11 := REALSXP_matrix \<lparr>nrow = 4, ncol = 2, elements = [0, 0, 0, 0, 0, 0, 0, 0]\<rparr>)\<rparr>)"
    by (simp add: IntegerFromReal_examples in_place_example)
  show ?thesis
    by (rule R_call_returns(2) [where native = in_place_Rtsne_cpp and ord = ord,
          OF example_heap(1-6) call])
qed


lemma example_call_refused:
  "fst (Rtsne_multicore_Rtsne_cpp (R_host ord native) 11 17 13 14 15 16 example_world) =
     Signalled 19"
  "world (snd (Rtsne_multicore_Rtsne_cpp (R_host ord native) 11 17 13 14 15 16 example_world)) =
     snd (R_condition ArgumentTypeError (PutRNGstate (GetRNGstate example_world)))"
  "invocations (trace (snd (Rtsne_multicore_Rtsne_cpp (R_host ord native)
     11 17 13 14 15 16 example_world))) = []"
proof -
  have refused: "(\<forall>M. heap example_world 11 \<noteq> REALSXP_matrix M) \<or>
      (\<forall>v. heap example_world 17 \<noteq> REALSXP [v]) \<or> (\<forall>v. heap example_world 13 \<noteq> REALSXP [v]) \<or>
      (\<forall>v. heap example_world 14 \<noteq> REALSXP [v]) \<or> (\<forall>v. heap example_world 15 \<noteq> REALSXP [v]) \<or>
      (\<forall>v. heap example_world 16 \<noteq> REALSXP [v])"
    by (simp add: example_heap)
  note run = R_call_refused [where native = native and ord = ord, OF refused]
  from run(1) show "fst (Rtsne_multicore_Rtsne_cpp (R_host ord native)
      11 17 13 14 15 16 example_world) = Signalled 19"
    by (simp add: example_allocated)
  from run(2) show "world (snd (Rtsne_multicore_Rtsne_cpp (R_host ord native)
      11 17 13 14 15 16 example_world)) =
     snd (R_condition ArgumentTypeError (PutRNGstate (GetRNGstate example_world)))" .
  from run(3) show "invocations (trace (snd (Rtsne_multicore_Rtsne_cpp (R_host ord native)
     11 17 13 14 15 16 example_world))) = []" .
qed

text \<open>A conversion that fails in a call on this host fails on an object that does not convert.\<close>

lemma R_failed_conversion:
  assumes "Conversion_failed q \<in>
      set (trace (snd (Rtsne_multicore_Rtsne_cpp (R_host ord native) XS dS pS tS nS mS w)))"
  shows "case q of
           Arg_X \<Rightarrow> \<forall>M. heap w XS \<noteq> REALSXP_matrix M
         | Arg_no_dims_in \<Rightarrow> \<forall>v. heap w dS \<noteq> REALSXP [v]
         | Arg_perplexity_in \<Rightarrow> \<forall>v. heap w pS \<noteq> REALSXP [v]
         | Arg_theta_in \<Rightarrow> \<forall>v. heap w tS \<noteq> REALSXP [v]
         | Arg_num_threads \<Rightarrow> \<forall>v. heap w nS \<noteq> REALSXP [v]
         | Arg_max_iter \<Rightarrow> \<forall>v. heap w mS \<noteq> REALSXP [v]"
proof (cases rule: wrapper_cases
    [where h = "R_host ord native" and XS = XS and dS = dS and pS = pS and tS = tS and nS = nS
       and mS = mS and w = w])
  case (conversion_fails e s1)
  let ?s = "RNGScope_construct (R_host ord native) \<lparr>world = w, trace = []\<rparr>"
  have s: "heap (world ?s) = heap w" "trace ?s = [RNGScope_constructed]"
    by (simp_all add: RNGScope_construct_def R_host_simps heap_GetRNGstate)
  from R_evaluated_Inl(3) [OF conversion_fails] obtain qs q' where
    tr: "trace s1 = trace ?s @ map Converted qs @ [Conversion_failed q']"
    and q': "case q' of
           Arg_X \<Rightarrow> \<forall>M. heap (world ?s) XS \<noteq> REALSXP_matrix M
         | Arg_no_dims_in \<Rightarrow> \<forall>v. heap (world ?s) dS \<noteq> REALSXP [v]
         | Arg_perplexity_in \<Rightarrow> \<forall>v. heap (world ?s) pS \<noteq> REALSXP [v]
         | Arg_theta_in \<Rightarrow> \<forall>v. heap (world ?s) tS \<noteq> REALSXP [v]
         | Arg_num_threads \<Rightarrow> \<forall>v. heap (world ?s) nS \<noteq> REALSXP [v]
         | Arg_max_iter \<Rightarrow> \<forall>v. heap (world ?s) mS \<noteq> REALSXP [v]"
    by blast
  from assms tr have "q = q'"
    by (auto simp: wrapper_conversion_fails [OF conversion_fails] s(2))
  with q' show ?thesis
    by (cases q') (simp_all add: s(1))
next
  case (native_throws X d p t n m s1 e w2)
  from converted_trace [OF native_throws(1)] obtain qs where
    "trace s1 = RNGScope_constructed # map Converted qs"
    by blast
  with assms have False
    by (auto simp: wrapper_native_throws [OF native_throws])
  then show ?thesis ..
next
  case (native_returns X d p t n m s1 res w2)
  from converted_trace [OF native_returns(1)] obtain qs where
    "trace s1 = RNGScope_constructed # map Converted qs"
    by blast
  with assms have False
    by (auto simp: wrapper_native_returns [OF native_returns])
  then show ?thesis ..
qed

lemma example_failed_conversion:
  "Conversion_failed Arg_no_dims_in \<in>
     set (trace (snd (Rtsne_multicore_Rtsne_cpp (R_host ord native) 11 17 13 14 15 16 example_world)))"
proof -
  let ?H = "R_host ord native"
  let ?s = "RNGScope_construct ?H \<lparr>world = example_world, trace = []\<rparr>"
  have s: "heap (world ?s) = heap example_world"
    by (simp add: RNGScope_construct_def R_host_simps heap_GetRNGstate)
  from example_arguments_refused [of ord native] obtain s1 where
    ev: "evaluate_arguments ?H 11 17 13 14 15 16 ?s = (Inl ArgumentTypeError, s1)"
    by blast
  from R_evaluated_Inl(3) [OF ev] obtain qs q where
    tr: "trace s1 = trace ?s @ map Converted qs @ [Conversion_failed q]"
    and q: "case q of
           Arg_X \<Rightarrow> \<forall>M. heap (world ?s) 11 \<noteq> REALSXP_matrix M
         | Arg_no_dims_in \<Rightarrow> \<forall>v. heap (world ?s) 17 \<noteq> REALSXP [v]
         | Arg_perplexity_in \<Rightarrow> \<forall>v. heap (world ?s) 13 \<noteq> REALSXP [v]
         | Arg_theta_in \<Rightarrow> \<forall>v. heap (world ?s) 14 \<noteq> REALSXP [v]
         | Arg_num_threads \<Rightarrow> \<forall>v. heap (world ?s) 15 \<noteq> REALSXP [v]
         | Arg_max_iter \<Rightarrow> \<forall>v. heap (world ?s) 16 \<noteq> REALSXP [v]"
    by blast
  from q have "q = Arg_no_dims_in"
    by (cases q) (simp_all add: s example_heap)
  with tr show ?thesis
    by (simp add: wrapper_conversion_fails [OF ev])
qed

text \<open>
  The order of the conversions is the compiler's. Evaluated from right to left, the
  example call converts \<^verbatim>\<open>max_iter\<close> first and the matrix last; a call whose matrix and
  iteration budget are both a character vector fails at \<^verbatim>\<open>max_iter\<close>, and at the matrix
  when the arguments are evaluated as written.
\<close>

lemmas wrapper_defs = Rtsne_multicore_Rtsne_cpp_def END_RCPP_def try_block_def and_then_def
  evaluate_arguments_def evaluate_argument_def take_values_def use_def convert_def
  nothing_converted_def order_written_def right_to_left_def
  call_Rtsne_cpp_def wrap_result_def RNGScope_construct_def RNGScope_destroy_def

lemmas R_defs = R_host_def R_as_NumericMatrix_def R_as_int_def R_as_double_def R_wrap_def
  R_condition_def allocate_def GetRNGstate_def PutRNGstate_def

lemma example_trace_right_to_left:
  "trace (snd (Rtsne_multicore_Rtsne_cpp (R_host right_to_left recording_Rtsne_cpp)
     11 12 13 14 15 16 example_world)) =
   [RNGScope_constructed, Converted Arg_max_iter, Converted Arg_num_threads, Converted Arg_theta_in,
    Converted Arg_perplexity_in, Converted Arg_no_dims_in, Converted Arg_X,
    Rtsne_cpp_called 11 2 0x3FF0000000000000 0x3FE0000000000000 1 1000, Wrapped,
    RNGScope_destroyed]"
  by (simp add: wrapper_defs R_defs example_heap heap_GetRNGstate IntegerFromReal_examples
      recording_Rtsne_cpp_def)

lemma example_failure_right_to_left:
  "trace (snd (Rtsne_multicore_Rtsne_cpp (R_host right_to_left recording_Rtsne_cpp)
     17 12 13 14 15 17 example_world)) =
   [RNGScope_constructed, Conversion_failed Arg_max_iter, RNGScope_destroyed]"
  by (simp add: wrapper_defs R_defs example_heap heap_GetRNGstate)

lemma example_failure_as_written:
  "trace (snd (Rtsne_multicore_Rtsne_cpp (R_host [] recording_Rtsne_cpp)
     17 12 13 14 15 17 example_world)) =
   [RNGScope_constructed, Conversion_failed Arg_X, RNGScope_destroyed]"
  by (simp add: wrapper_defs R_defs example_heap heap_GetRNGstate)

section \<open>The claims\<close>

subsection \<open>C1: one invocation, after the conversions\<close>

text \<open>
  C1 says that every call invokes the native routine exactly once and returns the wrap of
  its result. That fails for a call whose argument does not convert: in the example state
  the call that passes the character vector at address 17 as the target dimensionality
  never reaches the native routine.
\<close>

theorem not_invoked_counterexample:
  "invocations (trace (snd (Rtsne_multicore_Rtsne_cpp
     (R_host right_to_left (spec_Rtsne_cpp zero_engine)) 11 17 13 14 15 16 example_world))) = []"
  by (rule R_call_refused(3)) (simp add: example_heap)

text \<open>
  C1, amended: in every call whose six arguments all convert, the native routine is
  invoked exactly once. Before the invocation each of the six arguments has been converted,
  once, in the order the compiler chose; after it comes nothing but the wrap and the end of
  the RNG scope. When the invocation returns a result, the value the wrapper returns is the
  wrap of that result. A call in which a conversion throws does not invoke the routine.
\<close>

theorem invoked_once_after_conversions:
  "(\<forall>X d p t n m s1.
      evaluate_arguments h XS dS pS tS nS mS (RNGScope_construct h \<lparr>world = w, trace = []\<rparr>) =
        (Inr (X, d, p, t, n, m), s1) \<longrightarrow>
      (\<exists>qs. distinct qs \<and> set qs = UNIV \<and>
         trace (snd (Rtsne_multicore_Rtsne_cpp h XS dS pS tS nS mS w)) =
           RNGScope_constructed # map Converted qs @ Rtsne_cpp_called X d p t n m #
             (case fst (Rtsne_cpp h X d p t n m (world s1)) of
                Inl e \<Rightarrow> [RNGScope_destroyed]
              | Inr res \<Rightarrow> [Wrapped, RNGScope_destroyed])) \<and>
      invocations (trace (snd (Rtsne_multicore_Rtsne_cpp h XS dS pS tS nS mS w))) =
        [Rtsne_cpp_called X d p t n m] \<and>
      (\<forall>res w2. Rtsne_cpp h X d p t n m (world s1) = (Inr res, w2) \<longrightarrow>
         Rtsne_multicore_Rtsne_cpp h XS dS pS tS nS mS w =
           (Returned (fst (wrap h res w2)),
            \<lparr>world = RNGScope_dtor h (snd (wrap h res w2)),
             trace = trace s1 @ [Rtsne_cpp_called X d p t n m, Wrapped, RNGScope_destroyed]\<rparr>))) \<and>
   (\<forall>e s1.
      evaluate_arguments h XS dS pS tS nS mS (RNGScope_construct h \<lparr>world = w, trace = []\<rparr>) =
        (Inl e, s1) \<longrightarrow>
      invocations (trace (snd (Rtsne_multicore_Rtsne_cpp h XS dS pS tS nS mS w))) = [])"
  (is "?converted \<and> ?failed")
proof
  show ?failed
    by (intro allI impI) (rule invocations_conversion_fails)
  show ?converted
  proof (intro allI impI)
    fix X d p t n m s1
    assume ev: "evaluate_arguments h XS dS pS tS nS mS
        (RNGScope_construct h \<lparr>world = w, trace = []\<rparr>) = (Inr (X, d, p, t, n, m), s1)"
    from converted_trace [OF ev] obtain qs where
      qs: "trace s1 = RNGScope_constructed # map Converted qs" "distinct qs" "set qs = UNIV"
      by blast
    obtain r w2 where call: "Rtsne_cpp h X d p t n m (world s1) = (r, w2)"
      by (cases "Rtsne_cpp h X d p t n m (world s1)") auto
    show "(\<exists>qs. distinct qs \<and> set qs = UNIV \<and>
         trace (snd (Rtsne_multicore_Rtsne_cpp h XS dS pS tS nS mS w)) =
           RNGScope_constructed # map Converted qs @ Rtsne_cpp_called X d p t n m #
             (case fst (Rtsne_cpp h X d p t n m (world s1)) of
                Inl e \<Rightarrow> [RNGScope_destroyed]
              | Inr res \<Rightarrow> [Wrapped, RNGScope_destroyed])) \<and>
      invocations (trace (snd (Rtsne_multicore_Rtsne_cpp h XS dS pS tS nS mS w))) =
        [Rtsne_cpp_called X d p t n m] \<and>
      (\<forall>res w2. Rtsne_cpp h X d p t n m (world s1) = (Inr res, w2) \<longrightarrow>
         Rtsne_multicore_Rtsne_cpp h XS dS pS tS nS mS w =
           (Returned (fst (wrap h res w2)),
            \<lparr>world = RNGScope_dtor h (snd (wrap h res w2)),
             trace = trace s1 @ [Rtsne_cpp_called X d p t n m, Wrapped, RNGScope_destroyed]\<rparr>))"
    proof (cases r)
      case (Inl e)
      with call have call': "Rtsne_cpp h X d p t n m (world s1) = (Inl e, w2)" by simp
      have "trace (snd (Rtsne_multicore_Rtsne_cpp h XS dS pS tS nS mS w)) =
           RNGScope_constructed # map Converted qs @ Rtsne_cpp_called X d p t n m #
             (case fst (Rtsne_cpp h X d p t n m (world s1)) of
                Inl e \<Rightarrow> [RNGScope_destroyed]
              | Inr res \<Rightarrow> [Wrapped, RNGScope_destroyed])"
        by (simp add: wrapper_native_throws [OF ev call'] call' qs(1))
      with qs(2,3) invocations_native_throws [OF ev call'] call' show ?thesis
        by auto
    next
      case (Inr res)
      with call have call': "Rtsne_cpp h X d p t n m (world s1) = (Inr res, w2)" by simp
      have "trace (snd (Rtsne_multicore_Rtsne_cpp h XS dS pS tS nS mS w)) =
           RNGScope_constructed # map Converted qs @ Rtsne_cpp_called X d p t n m #
             (case fst (Rtsne_cpp h X d p t n m (world s1)) of
                Inl e \<Rightarrow> [RNGScope_destroyed]
              | Inr res \<Rightarrow> [Wrapped, RNGScope_destroyed])"
        by (simp add: wrapper_native_returns [OF ev call'] call' qs(1))
      with qs(2,3) invocations_native_returns [OF ev call'] call'
        wrapper_native_returns [OF ev call']
      show ?thesis
        by auto
    qed
  qed
qed

text \<open>
  The example call converts its six arguments and invokes the routine once; its value is
  the result list, the object at address 19. The call with the character vector converts
  no target dimensionality and invokes nothing.
\<close>

theorem invoked_once_after_conversions_witness:
  "(\<exists>s1. evaluate_arguments (R_host right_to_left (spec_Rtsne_cpp zero_engine)) 11 12 13 14 15 16
            (RNGScope_construct (R_host right_to_left (spec_Rtsne_cpp zero_engine))
               \<lparr>world = example_world, trace = []\<rparr>) =
          (Inr (11, 2, 0x3FF0000000000000, 0x3FE0000000000000, 1, 1000), s1)) \<and>
   invocations (trace (snd (Rtsne_multicore_Rtsne_cpp
     (R_host right_to_left (spec_Rtsne_cpp zero_engine)) 11 12 13 14 15 16 example_world))) =
     [Rtsne_cpp_called 11 2 0x3FF0000000000000 0x3FE0000000000000 1 1000] \<and>
   fst (Rtsne_multicore_Rtsne_cpp (R_host right_to_left (spec_Rtsne_cpp zero_engine))
     11 12 13 14 15 16 example_world) = Returned 19 \<and>
   (\<exists>s1. evaluate_arguments (R_host right_to_left (spec_Rtsne_cpp zero_engine)) 11 17 13 14 15 16
            (RNGScope_construct (R_host right_to_left (spec_Rtsne_cpp zero_engine))
               \<lparr>world = example_world, trace = []\<rparr>) =
          (Inl ArgumentTypeError, s1)) \<and>
   invocations (trace (snd (Rtsne_multicore_Rtsne_cpp
     (R_host right_to_left (spec_Rtsne_cpp zero_engine)) 11 17 13 14 15 16 example_world))) = []"
proof -
  let ?H = "R_host right_to_left (spec_Rtsne_cpp zero_engine)"
  from example_arguments [of right_to_left "spec_Rtsne_cpp zero_engine"] obtain s1 where
    ev: "evaluate_arguments ?H 11 12 13 14 15 16
           (RNGScope_construct ?H \<lparr>world = example_world, trace = []\<rparr>) =
         (Inr (11, 2, 0x3FF0000000000000, 0x3FE0000000000000, 1, 1000), s1)"
    and s1: "world s1 = GetRNGstate example_world"
    by blast
  from example_arguments_refused [of right_to_left "spec_Rtsne_cpp zero_engine"] obtain s1' where
    ev': "evaluate_arguments ?H 11 17 13 14 15 16
           (RNGScope_construct ?H \<lparr>world = example_world, trace = []\<rparr>) =
         (Inl ArgumentTypeError, s1')"
    by blast
  have call: "Rtsne_cpp ?H 11 2 0x3FF0000000000000 0x3FE0000000000000 1 1000 (world s1) =
      (Inr \<lparr>embedding = \<lparr>nrow = 4, ncol = 2, elements = replicate 8 0\<rparr>, cost = 0,
             iterations = 1000\<rparr>, GetRNGstate example_world)"
    by (simp add: R_host_simps s1 example_native)
  note once = invoked_once_after_conversions
    [of ?H 11 12 13 14 15 16 example_world, THEN conjunct1, rule_format, OF ev]
  from once have inv: "invocations (trace (snd (Rtsne_multicore_Rtsne_cpp ?H
      11 12 13 14 15 16 example_world))) =
      [Rtsne_cpp_called 11 2 0x3FF0000000000000 0x3FE0000000000000 1 1000]"
    by (elim conjE)
  from once have "\<forall>res w2. Rtsne_cpp ?H 11 2 0x3FF0000000000000 0x3FE0000000000000 1 1000
        (world s1) = (Inr res, w2) \<longrightarrow>
      Rtsne_multicore_Rtsne_cpp ?H 11 12 13 14 15 16 example_world =
        (Returned (fst (wrap ?H res w2)),
         \<lparr>world = RNGScope_dtor ?H (snd (wrap ?H res w2)),
          trace = trace s1 @ [Rtsne_cpp_called 11 2 0x3FF0000000000000 0x3FE0000000000000 1 1000,
            Wrapped, RNGScope_destroyed]\<rparr>)"
    by (elim conjE)
  from this [rule_format, OF call]
  have ret: "fst (Rtsne_multicore_Rtsne_cpp ?H 11 12 13 14 15 16 example_world) = Returned 19"
    by (simp add: R_host_simps example_allocated)
  from invoked_once_after_conversions
    [of ?H 11 17 13 14 15 16 example_world, THEN conjunct2, rule_format, OF ev']
  have none: "invocations (trace (snd (Rtsne_multicore_Rtsne_cpp ?H
      11 17 13 14 15 16 example_world))) = []" .
  from ev have c1: "\<exists>s1. evaluate_arguments ?H 11 12 13 14 15 16
           (RNGScope_construct ?H \<lparr>world = example_world, trace = []\<rparr>) =
         (Inr (11, 2, 0x3FF0000000000000, 0x3FE0000000000000, 1, 1000), s1)" ..
  from ev' have c4: "\<exists>s1. evaluate_arguments ?H 11 17 13 14 15 16
           (RNGScope_construct ?H \<lparr>world = example_world, trace = []\<rparr>) =
         (Inl ArgumentTypeError, s1)" ..
  from c1 inv ret c4 none show ?thesis
    by (intro conjI)
qed

subsection \<open>C2: the native routine receives the converted arguments\<close>

text \<open>
  C2: what the native routine receives is, argument by argument, the value the host's
  conversion produced for the value the caller supplied, and nothing else. When the
  arguments of the call have been evaluated to \<open>X\<close>, \<open>d\<close>, \<open>p\<close>, \<open>t\<close>, \<open>n\<close> and \<open>m\<close>,
  each of the six is a value that its conversion produced for the host value supplied, in a
  host state the wrapper was in (one that satisfies whatever the conversions keep and the
  state after the constructor satisfies), and the whole call is the application of the
  routine to these six values: its outcome, its final state and its trace are those of
  \<open>Rtsne_cpp h X d p t n m\<close>. The wrapper checks no value, since whatever converts is
  passed on. A \<open>c_double\<close> is a bit pattern, so the theta received equals the converted
  theta bit for bit.
\<close>

theorem native_receives_converted_arguments:
  fixes h :: "('w, 's, 'm, 'r, 'e) host"
  assumes keep: "conversions_keep I h" and w: "I (RNGScope_ctor h w)"
    and ev: "evaluate_arguments h XS dS pS tS nS mS (RNGScope_construct h \<lparr>world = w, trace = []\<rparr>) =
               (Inr (X, d, p, t, n, m), s1)"
  shows "produced I (as_NumericMatrix h) XS X \<and> produced I (as_int h) dS d \<and>
         produced I (as_double h) pS p \<and> produced I (as_double h) tS t \<and>
         produced I (as_int h) nS n \<and> produced I (as_int h) mS m \<and>
         Rtsne_multicore_Rtsne_cpp h XS dS pS tS nS mS w =
           (case Rtsne_cpp h X d p t n m (world s1) of
              (Inl e, w2) \<Rightarrow>
                (Signalled (fst (exception_to_r_condition h e (RNGScope_dtor h w2))),
                 \<lparr>world = snd (exception_to_r_condition h e (RNGScope_dtor h w2)),
                  trace = trace s1 @ [Rtsne_cpp_called X d p t n m, RNGScope_destroyed]\<rparr>)
            | (Inr res, w2) \<Rightarrow>
                (Returned (fst (wrap h res w2)),
                 \<lparr>world = RNGScope_dtor h (snd (wrap h res w2)),
                  trace = trace s1 @ [Rtsne_cpp_called X d p t n m, Wrapped, RNGScope_destroyed]\<rparr>))"
proof -
  obtain r w2 where call: "Rtsne_cpp h X d p t n m (world s1) = (r, w2)"
    by (cases "Rtsne_cpp h X d p t n m (world s1)") auto
  have "Rtsne_multicore_Rtsne_cpp h XS dS pS tS nS mS w =
           (case Rtsne_cpp h X d p t n m (world s1) of
              (Inl e, w2) \<Rightarrow>
                (Signalled (fst (exception_to_r_condition h e (RNGScope_dtor h w2))),
                 \<lparr>world = snd (exception_to_r_condition h e (RNGScope_dtor h w2)),
                  trace = trace s1 @ [Rtsne_cpp_called X d p t n m, RNGScope_destroyed]\<rparr>)
            | (Inr res, w2) \<Rightarrow>
                (Returned (fst (wrap h res w2)),
                 \<lparr>world = RNGScope_dtor h (snd (wrap h res w2)),
                  trace = trace s1 @ [Rtsne_cpp_called X d p t n m, Wrapped, RNGScope_destroyed]\<rparr>))"
  proof (cases r)
    case (Inl e)
    with call have call': "Rtsne_cpp h X d p t n m (world s1) = (Inl e, w2)" by simp
    show ?thesis by (simp add: wrapper_native_throws [OF ev call'] call')
  next
    case (Inr res)
    with call have call': "Rtsne_cpp h X d p t n m (world s1) = (Inr res, w2)" by simp
    show ?thesis by (simp add: wrapper_native_returns [OF ev call'] call')
  qed
  with evaluated_Inr(2-7) [OF keep w ev] show ?thesis
    by (intro conjI)
qed

text \<open>
  In the example the caller's theta, at address 14, is the pattern of 0.5. A routine that
  keeps what it is called with has kept, after the call, the six converted values and that
  very pattern, whatever it had kept before.
\<close>

theorem native_receives_converted_arguments_witness:
  "conversions_keep (\<lambda>u. u = GetRNGstate example_world)
     (R_host right_to_left recording_Rtsne_cpp) \<and>
   RNGScope_ctor (R_host right_to_left recording_Rtsne_cpp) example_world =
     GetRNGstate example_world \<and>
   (\<exists>s1. evaluate_arguments (R_host right_to_left recording_Rtsne_cpp) 11 12 13 14 15 16
            (RNGScope_construct (R_host right_to_left recording_Rtsne_cpp)
               \<lparr>world = example_world, trace = []\<rparr>) =
          (Inr (11, 2, 0x3FF0000000000000, 0x3FE0000000000000, 1, 1000), s1)) \<and>
   heap example_world 14 = REALSXP [0x3FE0000000000000] \<and>
   received example_world = [] \<and>
   received (world (snd (Rtsne_multicore_Rtsne_cpp (R_host right_to_left recording_Rtsne_cpp)
     11 12 13 14 15 16 example_world))) =
     [(11, 2, 0x3FF0000000000000, 0x3FE0000000000000, 1, 1000)]"
proof -
  let ?H = "R_host right_to_left recording_Rtsne_cpp"
  note keep = R_keep [of "GetRNGstate example_world" right_to_left recording_Rtsne_cpp]
  have w: "RNGScope_ctor ?H example_world = GetRNGstate example_world"
    by (simp add: R_host_simps)
  from example_arguments [of right_to_left recording_Rtsne_cpp] obtain s1 where
    ev: "evaluate_arguments ?H 11 12 13 14 15 16
           (RNGScope_construct ?H \<lparr>world = example_world, trace = []\<rparr>) =
         (Inr (11, 2, 0x3FF0000000000000, 0x3FE0000000000000, 1, 1000), s1)"
    and s1: "world s1 = GetRNGstate example_world"
    by blast
  from native_receives_converted_arguments [OF keep w ev]
  have "Rtsne_multicore_Rtsne_cpp ?H 11 12 13 14 15 16 example_world =
      (case Rtsne_cpp ?H 11 2 0x3FF0000000000000 0x3FE0000000000000 1 1000 (world s1) of
         (Inl e, w2) \<Rightarrow>
           (Signalled (fst (exception_to_r_condition ?H e (RNGScope_dtor ?H w2))),
            \<lparr>world = snd (exception_to_r_condition ?H e (RNGScope_dtor ?H w2)),
             trace = trace s1 @ [Rtsne_cpp_called 11 2 0x3FF0000000000000 0x3FE0000000000000 1 1000,
               RNGScope_destroyed]\<rparr>)
       | (Inr res, w2) \<Rightarrow>
           (Returned (fst (wrap ?H res w2)),
            \<lparr>world = RNGScope_dtor ?H (snd (wrap ?H res w2)),
             trace = trace s1 @ [Rtsne_cpp_called 11 2 0x3FF0000000000000 0x3FE0000000000000 1 1000,
               Wrapped, RNGScope_destroyed]\<rparr>))"
    by (elim conjE)
  then have got: "received (world (snd (Rtsne_multicore_Rtsne_cpp ?H
      11 12 13 14 15 16 example_world))) =
      [(11, 2, 0x3FF0000000000000, 0x3FE0000000000000, 1, 1000)]"
    by (simp add: R_host_simps s1 recording_Rtsne_cpp_def received_simps)
  from ev have c2: "\<exists>s1. evaluate_arguments ?H 11 12 13 14 15 16
           (RNGScope_construct ?H \<lparr>world = example_world, trace = []\<rparr>) =
         (Inr (11, 2, 0x3FF0000000000000, 0x3FE0000000000000, 1, 1000), s1)" ..
  from keep w c2 example_heap(4) received_simps(4) got show ?thesis
    by (intro conjI)
qed

subsection \<open>C3: failures reach the caller\<close>

text \<open>
  C3: a failure of the native routine is propagated, and the wrapper adds none but a
  failed conversion. First part: when the arguments convert and the native routine throws
  \<open>e\<close>, the call signals the host condition made from \<open>e\<close>, and the routine was invoked
  once (it is not retried, and no value is returned in its place). Second part: a call
  that signals a condition either had a conversion throw, on one of the six arguments
  supplied, before any invocation of the native routine, or had the native routine throw;
  the condition is made from that exception.
\<close>

theorem failures_propagate:
  "(\<forall>X d p t n m s1 e w2.
      evaluate_arguments h XS dS pS tS nS mS (RNGScope_construct h \<lparr>world = w, trace = []\<rparr>) =
        (Inr (X, d, p, t, n, m), s1) \<longrightarrow>
      Rtsne_cpp h X d p t n m (world s1) = (Inl e, w2) \<longrightarrow>
        fst (Rtsne_multicore_Rtsne_cpp h XS dS pS tS nS mS w) =
          Signalled (fst (exception_to_r_condition h e (RNGScope_dtor h w2))) \<and>
        invocations (trace (snd (Rtsne_multicore_Rtsne_cpp h XS dS pS tS nS mS w))) =
          [Rtsne_cpp_called X d p t n m]) \<and>
   (\<forall>c. fst (Rtsne_multicore_Rtsne_cpp h XS dS pS tS nS mS w) = Signalled c \<longrightarrow>
      (\<exists>e s1.
         evaluate_arguments h XS dS pS tS nS mS (RNGScope_construct h \<lparr>world = w, trace = []\<rparr>) =
           (Inl e, s1) \<and>
         thrown_by_conversion h XS dS pS tS nS mS e \<and>
         c = fst (exception_to_r_condition h e (RNGScope_dtor h (world s1))) \<and>
         invocations (trace (snd (Rtsne_multicore_Rtsne_cpp h XS dS pS tS nS mS w))) = []) \<or>
      (\<exists>X d p t n m s1 e w2.
         evaluate_arguments h XS dS pS tS nS mS (RNGScope_construct h \<lparr>world = w, trace = []\<rparr>) =
           (Inr (X, d, p, t, n, m), s1) \<and>
         Rtsne_cpp h X d p t n m (world s1) = (Inl e, w2) \<and>
         c = fst (exception_to_r_condition h e (RNGScope_dtor h w2))))"
  (is "?propagated \<and> ?only")
proof
  show ?propagated
  proof (intro allI impI)
    fix X d p t n m s1 e w2
    assume ev: "evaluate_arguments h XS dS pS tS nS mS
        (RNGScope_construct h \<lparr>world = w, trace = []\<rparr>) = (Inr (X, d, p, t, n, m), s1)"
      and call: "Rtsne_cpp h X d p t n m (world s1) = (Inl e, w2)"
    from invocations_native_throws [OF ev call]
    show "fst (Rtsne_multicore_Rtsne_cpp h XS dS pS tS nS mS w) =
          Signalled (fst (exception_to_r_condition h e (RNGScope_dtor h w2))) \<and>
        invocations (trace (snd (Rtsne_multicore_Rtsne_cpp h XS dS pS tS nS mS w))) =
          [Rtsne_cpp_called X d p t n m]"
      by (simp add: wrapper_native_throws [OF ev call])
  qed
  show ?only
  proof (cases rule: wrapper_cases
      [where h = h and XS = XS and dS = dS and pS = pS and tS = tS and nS = nS and mS = mS and w = w])
    case (conversion_fails e s1)
    with evaluated_Inl_thrown [OF conversion_fails]
      invocations_conversion_fails [OF conversion_fails]
    show ?thesis
      by (simp add: wrapper_conversion_fails [OF conversion_fails])
  next
    case (native_throws X d p t n m s1 e w2)
    then show ?thesis
      by (simp add: wrapper_native_throws [OF native_throws])
  next
    case (native_returns X d p t n m s1 res w2)
    then show ?thesis
      by (simp add: wrapper_native_returns [OF native_returns])
  qed
qed

text \<open>
  In the example state, the call with perplexity 1000.0 (address 16) on 4 observations
  converts its arguments, the native routine refuses them, and the caller gets the
  condition made from that refusal.
\<close>

theorem failures_propagate_witness:
  "(\<exists>s1. evaluate_arguments (R_host right_to_left (spec_Rtsne_cpp zero_engine)) 11 12 16 14 15 16
            (RNGScope_construct (R_host right_to_left (spec_Rtsne_cpp zero_engine))
               \<lparr>world = example_world, trace = []\<rparr>) =
          (Inr (11, 2, 0x408F400000000000, 0x3FE0000000000000, 1, 1000), s1) \<and>
          world s1 = GetRNGstate example_world) \<and>
   Rtsne_cpp (R_host right_to_left (spec_Rtsne_cpp zero_engine))
     11 2 0x408F400000000000 0x3FE0000000000000 1 1000
     (GetRNGstate example_world) = (Inl NativeComputationError, GetRNGstate example_world) \<and>
   fst (Rtsne_multicore_Rtsne_cpp (R_host right_to_left (spec_Rtsne_cpp zero_engine))
     11 12 16 14 15 16 example_world) =
     Signalled (fst (R_condition NativeComputationError (PutRNGstate (GetRNGstate example_world)))) \<and>
   invocations (trace (snd (Rtsne_multicore_Rtsne_cpp (R_host right_to_left (spec_Rtsne_cpp zero_engine))
     11 12 16 14 15 16 example_world))) =
     [Rtsne_cpp_called 11 2 0x408F400000000000 0x3FE0000000000000 1 1000] \<and>
   fst (R_condition NativeComputationError (PutRNGstate (GetRNGstate example_world))) = 19"
proof -
  let ?H = "R_host right_to_left (spec_Rtsne_cpp zero_engine)"
  note conv = example_arguments_perplexity [of right_to_left "spec_Rtsne_cpp zero_engine"]
  then obtain s1 where
    ev: "evaluate_arguments ?H 11 12 16 14 15 16
           (RNGScope_construct ?H \<lparr>world = example_world, trace = []\<rparr>) =
         (Inr (11, 2, 0x408F400000000000, 0x3FE0000000000000, 1, 1000), s1)"
    and s1: "world s1 = GetRNGstate example_world"
    by blast
  have native: "Rtsne_cpp ?H 11 2 0x408F400000000000 0x3FE0000000000000 1 1000
     (GetRNGstate example_world) = (Inl NativeComputationError, GetRNGstate example_world)"
    by (simp add: R_host_simps example_native_refuses)
  with s1 have call: "Rtsne_cpp ?H 11 2 0x408F400000000000 0x3FE0000000000000 1 1000 (world s1) =
     (Inl NativeComputationError, GetRNGstate example_world)"
    by simp
  from failures_propagate [of ?H 11 12 16 14 15 16 example_world, THEN conjunct1, rule_format,
      OF ev call]
  have "fst (Rtsne_multicore_Rtsne_cpp ?H 11 12 16 14 15 16 example_world) =
     Signalled (fst (R_condition NativeComputationError (PutRNGstate (GetRNGstate example_world)))) \<and>
     invocations (trace (snd (Rtsne_multicore_Rtsne_cpp ?H 11 12 16 14 15 16 example_world))) =
     [Rtsne_cpp_called 11 2 0x408F400000000000 0x3FE0000000000000 1 1000]"
    by (simp add: R_host_simps)
  moreover note example_allocated(2) [of NativeComputationError]
  ultimately show ?thesis using conv native by (intro conjI) (elim conjE, assumption)+
qed

subsection \<open>C8: the RNG scope around the call\<close>

text \<open>
  C8: every call constructs the RNG scope before it does anything else and destroys it
  last, so the native routine runs between the two; the steps in between run on the host
  state the constructor produced, and the block ends in the state the destructor
  produced. A call can therefore change the generator state the caller sees, although no
  argument of the wrapper is a generator: the example call, made before any generator was
  used, leaves a seed behind.
\<close>

theorem rng_scope_encloses_call:
  "(\<exists>mid. trace (snd (Rtsne_multicore_Rtsne_cpp h XS dS pS tS nS mS w)) =
            RNGScope_constructed # mid @ [RNGScope_destroyed] \<and>
          RNGScope_constructed \<notin> set mid \<and> RNGScope_destroyed \<notin> set mid) \<and>
   (\<exists>r s. and_then (evaluate_arguments h XS dS pS tS nS mS)
            (\<lambda>args. and_then (call_Rtsne_cpp h args) (wrap_result h))
            \<lparr>world = RNGScope_ctor h w, trace = [RNGScope_constructed]\<rparr> = (r, s) \<and>
          try_block h XS dS pS tS nS mS \<lparr>world = w, trace = []\<rparr> =
            (r, \<lparr>world = RNGScope_dtor h (world s), trace = trace s @ [RNGScope_destroyed]\<rparr>)) \<and>
   Random_seed example_world = None \<and>
   Random_seed (world (snd (Rtsne_multicore_Rtsne_cpp (R_host ord (spec_Rtsne_cpp zero_engine))
     11 12 13 14 15 16 example_world))) = Some 5489"
  (is "?bracket \<and> ?sync \<and> ?before \<and> ?after")
proof (intro conjI)
  show ?bracket
  proof (cases rule: wrapper_cases
      [where h = h and XS = XS and dS = dS and pS = pS and tS = tS and nS = nS and mS = mS and w = w])
    case (conversion_fails e s1)
    from evaluated_Inl(2) [OF keep_True TrueI conversion_fails] obtain qs q where
      "trace s1 = RNGScope_constructed # map Converted qs @ [Conversion_failed q]"
      by blast
    then show ?thesis
      by (auto simp: wrapper_conversion_fails [OF conversion_fails])
  next
    case (native_throws X d p t n m s1 e w2)
    from converted_trace [OF native_throws(1)] obtain qs where
      "trace s1 = RNGScope_constructed # map Converted qs"
      by blast
    then show ?thesis
      by (auto simp: wrapper_native_throws [OF native_throws])
  next
    case (native_returns X d p t n m s1 res w2)
    from converted_trace [OF native_returns(1)] obtain qs where
      "trace s1 = RNGScope_constructed # map Converted qs"
      by blast
    then show ?thesis
      by (auto simp: wrapper_native_returns [OF native_returns])
  qed
  show ?sync
    by (simp add: try_block_def RNGScope_construct_def RNGScope_destroy_def split: prod.splits)
  show ?before
    by (simp add: example_world_def)
  show ?after
    by (simp add: example_call(2) Random_seed_PutRNGstate rng_R_wrap rng_GetRNGstate_example)
qed

subsection \<open>C9: no exception leaves the entry point\<close>

text \<open>
  C9 says that for every input the wrapper ends by returning a host value. It does not
  when something throws: the bracket of the two macros catches the exception and signals a
  host condition, and a call that signals returns nothing. In the example state the call
  that passes the character vector at address 17 as the target dimensionality ends with
  the condition at address 19, which holds an \<open>ArgumentTypeError\<close>, signalled.
\<close>

theorem failing_call_signals_counterexample:
  "fst (Rtsne_multicore_Rtsne_cpp (R_host right_to_left (spec_Rtsne_cpp zero_engine))
     11 17 13 14 15 16 example_world) = Signalled 19 \<and>
   heap (world (snd (Rtsne_multicore_Rtsne_cpp (R_host right_to_left (spec_Rtsne_cpp zero_engine))
     11 17 13 14 15 16 example_world))) 19 = Condition ArgumentTypeError"
proof -
  from heap_R_condition [of ArgumentTypeError "PutRNGstate (GetRNGstate example_world)"]
  have "heap (snd (R_condition ArgumentTypeError (PutRNGstate (GetRNGstate example_world)))) 19 =
      Condition ArgumentTypeError"
    by (simp add: example_allocated)
  then show ?thesis
    by (simp add: example_call_refused)
qed

text \<open>
  C9, amended: an exception thrown inside the bracket does not leave the entry point; it
  becomes the host condition that the call signals. An exception thrown while the
  arguments are converted is one that a conversion threw on a value supplied; the call
  signals the host condition made from it, after the RNG scope has ended. An exception
  thrown by the native routine is treated the same. A call returns a host value exactly
  when the six arguments convert and the routine returns a result, and the value is the
  wrap of that result.
\<close>

theorem exceptions_become_conditions:
  "(\<forall>e s1.
      evaluate_arguments h XS dS pS tS nS mS (RNGScope_construct h \<lparr>world = w, trace = []\<rparr>) =
        (Inl e, s1) \<longrightarrow>
      thrown_by_conversion h XS dS pS tS nS mS e \<and>
      Rtsne_multicore_Rtsne_cpp h XS dS pS tS nS mS w =
        (Signalled (fst (exception_to_r_condition h e (RNGScope_dtor h (world s1)))),
         \<lparr>world = snd (exception_to_r_condition h e (RNGScope_dtor h (world s1))),
          trace = trace s1 @ [RNGScope_destroyed]\<rparr>)) \<and>
   (\<forall>X d p t n m s1 e w2.
      evaluate_arguments h XS dS pS tS nS mS (RNGScope_construct h \<lparr>world = w, trace = []\<rparr>) =
        (Inr (X, d, p, t, n, m), s1) \<longrightarrow>
      Rtsne_cpp h X d p t n m (world s1) = (Inl e, w2) \<longrightarrow>
      Rtsne_multicore_Rtsne_cpp h XS dS pS tS nS mS w =
        (Signalled (fst (exception_to_r_condition h e (RNGScope_dtor h w2))),
         \<lparr>world = snd (exception_to_r_condition h e (RNGScope_dtor h w2)),
          trace = trace s1 @ [Rtsne_cpp_called X d p t n m, RNGScope_destroyed]\<rparr>)) \<and>
   ((\<exists>v. fst (Rtsne_multicore_Rtsne_cpp h XS dS pS tS nS mS w) = Returned v) \<longleftrightarrow>
    (\<exists>X d p t n m s1 res w2.
       evaluate_arguments h XS dS pS tS nS mS (RNGScope_construct h \<lparr>world = w, trace = []\<rparr>) =
         (Inr (X, d, p, t, n, m), s1) \<and>
       Rtsne_cpp h X d p t n m (world s1) = (Inr res, w2) \<and>
       fst (Rtsne_multicore_Rtsne_cpp h XS dS pS tS nS mS w) = Returned (fst (wrap h res w2))))"
  (is "?conversion \<and> ?native \<and> ?returns")
proof (intro conjI)
  show ?conversion
  proof (intro allI impI)
    fix e s1
    assume ev: "evaluate_arguments h XS dS pS tS nS mS
        (RNGScope_construct h \<lparr>world = w, trace = []\<rparr>) = (Inl e, s1)"
    from evaluated_Inl_thrown [OF ev] wrapper_conversion_fails [OF ev]
    show "thrown_by_conversion h XS dS pS tS nS mS e \<and>
      Rtsne_multicore_Rtsne_cpp h XS dS pS tS nS mS w =
        (Signalled (fst (exception_to_r_condition h e (RNGScope_dtor h (world s1)))),
         \<lparr>world = snd (exception_to_r_condition h e (RNGScope_dtor h (world s1))),
          trace = trace s1 @ [RNGScope_destroyed]\<rparr>)"
      by (intro conjI)
  qed
  show ?native
    by (intro allI impI) (rule wrapper_native_throws)
  show ?returns
  proof (cases rule: wrapper_cases
      [where h = h and XS = XS and dS = dS and pS = pS and tS = tS and nS = nS and mS = mS and w = w])
    case (conversion_fails e s1)
    then show ?thesis
      by (simp add: wrapper_conversion_fails [OF conversion_fails])
  next
    case (native_throws X d p t n m s1 e w2)
    then show ?thesis
      by (simp add: wrapper_native_throws [OF native_throws])
  next
    case (native_returns X d p t n m s1 res w2)
    then show ?thesis
      by (simp add: wrapper_native_returns [OF native_returns])
  qed
qed

text \<open>
  In the example state: the call with the character vector signals the condition made
  from the \<open>ArgumentTypeError\<close> of the conversion, the call with perplexity 1000.0 the
  condition made from the routine's \<open>NativeComputationError\<close>, and the example call
  returns.
\<close>

theorem exceptions_become_conditions_witness:
  "(\<exists>s1. evaluate_arguments (R_host right_to_left (spec_Rtsne_cpp zero_engine)) 11 17 13 14 15 16
            (RNGScope_construct (R_host right_to_left (spec_Rtsne_cpp zero_engine))
               \<lparr>world = example_world, trace = []\<rparr>) =
          (Inl ArgumentTypeError, s1)) \<and>
   thrown_by_conversion (R_host right_to_left (spec_Rtsne_cpp zero_engine)) 11 17 13 14 15 16
     ArgumentTypeError \<and>
   fst (Rtsne_multicore_Rtsne_cpp (R_host right_to_left (spec_Rtsne_cpp zero_engine))
     11 17 13 14 15 16 example_world) =
     Signalled (fst (R_condition ArgumentTypeError (PutRNGstate (GetRNGstate example_world)))) \<and>
   (\<exists>s1. evaluate_arguments (R_host right_to_left (spec_Rtsne_cpp zero_engine)) 11 12 16 14 15 16
            (RNGScope_construct (R_host right_to_left (spec_Rtsne_cpp zero_engine))
               \<lparr>world = example_world, trace = []\<rparr>) =
          (Inr (11, 2, 0x408F400000000000, 0x3FE0000000000000, 1, 1000), s1) \<and>
          Rtsne_cpp (R_host right_to_left (spec_Rtsne_cpp zero_engine))
            11 2 0x408F400000000000 0x3FE0000000000000 1 1000 (world s1) =
          (Inl NativeComputationError, GetRNGstate example_world)) \<and>
   fst (Rtsne_multicore_Rtsne_cpp (R_host right_to_left (spec_Rtsne_cpp zero_engine))
     11 12 16 14 15 16 example_world) =
     Signalled (fst (R_condition NativeComputationError (PutRNGstate (GetRNGstate example_world)))) \<and>
   (\<exists>v. fst (Rtsne_multicore_Rtsne_cpp (R_host right_to_left (spec_Rtsne_cpp zero_engine))
     11 12 13 14 15 16 example_world) = Returned v)"
proof -
  let ?H = "R_host right_to_left (spec_Rtsne_cpp zero_engine)"
  from example_arguments_refused [of right_to_left "spec_Rtsne_cpp zero_engine"] obtain s1 where
    ev1: "evaluate_arguments ?H 11 17 13 14 15 16
           (RNGScope_construct ?H \<lparr>world = example_world, trace = []\<rparr>) =
         (Inl ArgumentTypeError, s1)"
    and s1: "world s1 = GetRNGstate example_world"
    by blast
  from exceptions_become_conditions [of ?H 11 17 13 14 15 16 example_world,
      THEN conjunct1, rule_format, OF ev1]
  have thrown: "thrown_by_conversion ?H 11 17 13 14 15 16 ArgumentTypeError"
    and sig1: "fst (Rtsne_multicore_Rtsne_cpp ?H 11 17 13 14 15 16 example_world) =
      Signalled (fst (R_condition ArgumentTypeError (PutRNGstate (GetRNGstate example_world))))"
    by (simp_all add: R_host_simps s1)
  from example_arguments_perplexity [of right_to_left "spec_Rtsne_cpp zero_engine"] obtain s2 where
    ev2: "evaluate_arguments ?H 11 12 16 14 15 16
           (RNGScope_construct ?H \<lparr>world = example_world, trace = []\<rparr>) =
         (Inr (11, 2, 0x408F400000000000, 0x3FE0000000000000, 1, 1000), s2)"
    and s2: "world s2 = GetRNGstate example_world"
    by blast
  have call2: "Rtsne_cpp ?H 11 2 0x408F400000000000 0x3FE0000000000000 1 1000 (world s2) =
      (Inl NativeComputationError, GetRNGstate example_world)"
    by (simp add: R_host_simps s2 example_native_refuses)
  from exceptions_become_conditions [of ?H 11 12 16 14 15 16 example_world,
      THEN conjunct2, THEN conjunct1, rule_format, OF ev2 call2]
  have sig2: "fst (Rtsne_multicore_Rtsne_cpp ?H 11 12 16 14 15 16 example_world) =
      Signalled (fst (R_condition NativeComputationError (PutRNGstate (GetRNGstate example_world))))"
    by (simp add: R_host_simps)
  from example_arguments [of right_to_left "spec_Rtsne_cpp zero_engine"] obtain s3 where
    ev3: "evaluate_arguments ?H 11 12 13 14 15 16
           (RNGScope_construct ?H \<lparr>world = example_world, trace = []\<rparr>) =
         (Inr (11, 2, 0x3FF0000000000000, 0x3FE0000000000000, 1, 1000), s3)"
    and s3: "world s3 = GetRNGstate example_world"
    by blast
  have call3: "Rtsne_cpp ?H 11 2 0x3FF0000000000000 0x3FE0000000000000 1 1000 (world s3) =
      (Inr \<lparr>embedding = \<lparr>nrow = 4, ncol = 2, elements = replicate 8 0\<rparr>, cost = 0,
             iterations = 1000\<rparr>, GetRNGstate example_world)"
    by (simp add: R_host_simps s3 example_native)
  have "fst (Rtsne_multicore_Rtsne_cpp ?H 11 12 13 14 15 16 example_world) =
      Returned (fst (wrap ?H \<lparr>embedding = \<lparr>nrow = 4, ncol = 2, elements = replicate 8 0\<rparr>, cost = 0,
             iterations = 1000\<rparr> (GetRNGstate example_world)))"
    by (simp add: example_call(1) R_host_simps example_allocated)
  with ev3 call3
  have "\<exists>X d p t n m s1 res w2.
       evaluate_arguments ?H 11 12 13 14 15 16
         (RNGScope_construct ?H \<lparr>world = example_world, trace = []\<rparr>) =
         (Inr (X, d, p, t, n, m), s1) \<and>
       Rtsne_cpp ?H X d p t n m (world s1) = (Inr res, w2) \<and>
       fst (Rtsne_multicore_Rtsne_cpp ?H 11 12 13 14 15 16 example_world) =
         Returned (fst (wrap ?H res w2))"
    by blast
  from exceptions_become_conditions [of ?H 11 12 13 14 15 16 example_world,
      THEN conjunct2, THEN conjunct2, THEN iffD2, OF this]
  have ret: "\<exists>v. fst (Rtsne_multicore_Rtsne_cpp ?H 11 12 13 14 15 16 example_world) = Returned v" .
  from ev1 have c1: "\<exists>s1. evaluate_arguments ?H 11 17 13 14 15 16
           (RNGScope_construct ?H \<lparr>world = example_world, trace = []\<rparr>) =
         (Inl ArgumentTypeError, s1)" ..
  from ev2 call2 have c4: "\<exists>s1. evaluate_arguments ?H 11 12 16 14 15 16
           (RNGScope_construct ?H \<lparr>world = example_world, trace = []\<rparr>) =
         (Inr (11, 2, 0x408F400000000000, 0x3FE0000000000000, 1, 1000), s1) \<and>
          Rtsne_cpp ?H 11 2 0x408F400000000000 0x3FE0000000000000 1 1000 (world s1) =
          (Inl NativeComputationError, GetRNGstate example_world)"
    by (intro exI conjI)
  from c1 thrown sig1 c4 sig2 ret show ?thesis
    by (intro conjI)
qed

subsection \<open>C4: the caller's matrix\<close>

text \<open>
  C4 says that the caller's matrix is unchanged by a call and that the shim makes the copy
  a native routine may need. The source makes no copy: line 14 keeps the host value and
  line 20 passes its conversion on. On the example host, where the conversion of a numeric
  matrix yields a handle on the caller's own object, a native routine that works in the
  buffer it is given clears the caller's matrix.
\<close>

theorem caller_matrix_overwritten_counterexample:
  "heap (world (snd (Rtsne_multicore_Rtsne_cpp (R_host right_to_left in_place_Rtsne_cpp)
     11 12 13 14 15 16 example_world))) 11 \<noteq> heap example_world 11"
  by (simp add: in_place_example_call heap_PutRNGstate heap_R_wrap_other allocated_GetRNGstate
      allocated_example example_heap)
     (simp add: example_matrix_def)

text \<open>
  C4, amended: the wrapper itself never writes to the caller's matrix. Whatever the
  operations of the binding library and the native routine leave unchanged is unchanged
  after the call; in particular the caller's matrix, when neither the conversions nor the
  native routine write to it. And the wrapper makes no copy: the matrix the routine is
  applied to is the very value that the conversion produced for the host value supplied, in
  a state in which the caller's matrix was as the caller left it.
\<close>

theorem wrapper_leaves_unchanged:
  fixes h :: "('w, 's, 'm, 'r, 'e) host"
  assumes w: "I w"
    and lib: "library_leaves_unchanged I obs h"
    and native: "native_leaves_unchanged I obs h"
  shows "obs (world (snd (Rtsne_multicore_Rtsne_cpp h XS dS pS tS nS mS w))) = obs w \<and>
         (\<forall>X d p t n m s1.
            evaluate_arguments h XS dS pS tS nS mS (RNGScope_construct h \<lparr>world = w, trace = []\<rparr>) =
              (Inr (X, d, p, t, n, m), s1) \<longrightarrow>
            (\<exists>u u'. I u \<and> obs u = obs w \<and> as_NumericMatrix h XS u = (Inr X, u')) \<and>
            fst (Rtsne_multicore_Rtsne_cpp h XS dS pS tS nS mS w) =
              (case Rtsne_cpp h X d p t n m (world s1) of
                 (Inl e, w2) \<Rightarrow> Signalled (fst (exception_to_r_condition h e (RNGScope_dtor h w2)))
               | (Inr res, w2) \<Rightarrow> Returned (fst (wrap h res w2))))"
  (is "?frame \<and> ?same")
proof
  show ?frame
  proof (cases rule: wrapper_cases
      [where h = h and XS = XS and dS = dS and pS = pS and tS = tS and nS = nS and mS = mS and w = w])
    case (conversion_fails e s1)
    from before_native [OF lib w conversion_fails] have s1: "I (world s1)" "obs (world s1) = obs w"
      by simp_all
    from after_native(1) [OF lib s1(1)] s1(2) show ?thesis
      by (simp add: wrapper_conversion_fails [OF conversion_fails])
  next
    case (native_throws X d p t n m s1 e w2)
    from before_native [OF lib w native_throws(1)] have s1: "I (world s1)" "obs (world s1) = obs w"
      by simp_all
    from native have "leaves_unchanged I obs (\<lambda>w. snd (Rtsne_cpp h X d p t n m w))"
      by (simp add: native_leaves_unchanged_def)
    from leaves_unchangedD [OF this s1(1)] native_throws(2) s1(2)
    have w2: "I w2" "obs w2 = obs w" by simp_all
    from after_native(1) [OF lib w2(1)] w2(2) show ?thesis
      by (simp add: wrapper_native_throws [OF native_throws])
  next
    case (native_returns X d p t n m s1 res w2)
    from before_native [OF lib w native_returns(1)] have s1: "I (world s1)" "obs (world s1) = obs w"
      by simp_all
    from native have "leaves_unchanged I obs (\<lambda>w. snd (Rtsne_cpp h X d p t n m w))"
      by (simp add: native_leaves_unchanged_def)
    from leaves_unchangedD [OF this s1(1)] native_returns(2) s1(2)
    have w2: "I w2" "obs w2 = obs w" by simp_all
    from after_native(2) [OF lib w2(1)] w2(2) show ?thesis
      by (simp add: wrapper_native_returns [OF native_returns])
  qed
  show ?same
  proof (intro allI impI)
    fix X d p t n m s1
    assume ev: "evaluate_arguments h XS dS pS tS nS mS
        (RNGScope_construct h \<lparr>world = w, trace = []\<rparr>) = (Inr (X, d, p, t, n, m), s1)"
    from construct_frame [OF lib w]
    have "I (RNGScope_ctor h w) \<and> obs (RNGScope_ctor h w) = obs w" .
    from evaluated_Inr(2) [OF frame_keep [OF lib, of w] this ev]
    have X: "\<exists>u u'. I u \<and> obs u = obs w \<and> as_NumericMatrix h XS u = (Inr X, u')"
      by (simp add: produced_def)
    obtain r w2 where call: "Rtsne_cpp h X d p t n m (world s1) = (r, w2)"
      by (cases "Rtsne_cpp h X d p t n m (world s1)") auto
    have "fst (Rtsne_multicore_Rtsne_cpp h XS dS pS tS nS mS w) =
              (case Rtsne_cpp h X d p t n m (world s1) of
                 (Inl e, w2) \<Rightarrow> Signalled (fst (exception_to_r_condition h e (RNGScope_dtor h w2)))
               | (Inr res, w2) \<Rightarrow> Returned (fst (wrap h res w2)))"
    proof (cases r)
      case (Inl e)
      with call have call': "Rtsne_cpp h X d p t n m (world s1) = (Inl e, w2)" by simp
      show ?thesis by (simp add: wrapper_native_throws [OF ev call'] call')
    next
      case (Inr res)
      with call have call': "Rtsne_cpp h X d p t n m (world s1) = (Inr res, w2)" by simp
      show ?thesis by (simp add: wrapper_native_returns [OF ev call'] call')
    qed
    with X show "(\<exists>u u'. I u \<and> obs u = obs w \<and> as_NumericMatrix h XS u = (Inr X, u')) \<and>
            fst (Rtsne_multicore_Rtsne_cpp h XS dS pS tS nS mS w) =
              (case Rtsne_cpp h X d p t n m (world s1) of
                 (Inl e, w2) \<Rightarrow> Signalled (fst (exception_to_r_condition h e (RNGScope_dtor h w2)))
               | (Inr res, w2) \<Rightarrow> Returned (fst (wrap h res w2)))"
      by (intro conjI)
  qed
qed

text \<open>
  With the native routine of the spec, which reads its input only, the matrix at address 11
  is after the example call what it was before; and the matrix the routine was applied to
  is the handle 11 on the caller's object.
\<close>

theorem wrapper_leaves_unchanged_witness:
  "11 < allocated example_world \<and>
   library_leaves_unchanged (\<lambda>w. 11 < allocated w) (\<lambda>w. heap w 11)
     (R_host right_to_left (spec_Rtsne_cpp zero_engine)) \<and>
   native_leaves_unchanged (\<lambda>w. 11 < allocated w) (\<lambda>w. heap w 11)
     (R_host right_to_left (spec_Rtsne_cpp zero_engine)) \<and>
   heap (world (snd (Rtsne_multicore_Rtsne_cpp (R_host right_to_left (spec_Rtsne_cpp zero_engine))
     11 12 13 14 15 16 example_world))) 11 = REALSXP_matrix example_matrix \<and>
   (\<exists>s1. evaluate_arguments (R_host right_to_left (spec_Rtsne_cpp zero_engine)) 11 12 13 14 15 16
            (RNGScope_construct (R_host right_to_left (spec_Rtsne_cpp zero_engine))
               \<lparr>world = example_world, trace = []\<rparr>) =
          (Inr (11, 2, 0x3FF0000000000000, 0x3FE0000000000000, 1, 1000), s1)) \<and>
   (\<exists>u u'. 11 < allocated u \<and> heap u 11 = REALSXP_matrix example_matrix \<and>
      as_NumericMatrix (R_host right_to_left (spec_Rtsne_cpp zero_engine)) 11 u = (Inr 11, u'))"
proof -
  let ?H = "R_host right_to_left (spec_Rtsne_cpp zero_engine)"
  have w: "11 < allocated example_world" by (simp add: allocated_example)
  note lib = R_library_leaves_unchanged [of 11 right_to_left "spec_Rtsne_cpp zero_engine"]
  note native = spec_native_leaves_unchanged
    [of "\<lambda>w. 11 < allocated w" "\<lambda>w. heap w 11" right_to_left zero_engine]
  note unchanged = wrapper_leaves_unchanged
    [of "\<lambda>w. 11 < allocated w" example_world "\<lambda>w. heap w 11", OF w lib native,
     of 11 12 13 14 15 16]
  from unchanged
  have frame: "heap (world (snd (Rtsne_multicore_Rtsne_cpp ?H
     11 12 13 14 15 16 example_world))) 11 = REALSXP_matrix example_matrix"
    by (simp add: example_heap)
  from example_arguments [of right_to_left "spec_Rtsne_cpp zero_engine"] obtain s1 where
    ev: "evaluate_arguments ?H 11 12 13 14 15 16
           (RNGScope_construct ?H \<lparr>world = example_world, trace = []\<rparr>) =
         (Inr (11, 2, 0x3FF0000000000000, 0x3FE0000000000000, 1, 1000), s1)"
    by blast
  from unchanged [THEN conjunct2, rule_format, OF ev]
  have same: "\<exists>u u'. 11 < allocated u \<and> heap u 11 = REALSXP_matrix example_matrix \<and>
      as_NumericMatrix ?H 11 u = (Inr 11, u')"
    by (simp add: example_heap)
  from ev have c5: "\<exists>s1. evaluate_arguments ?H 11 12 13 14 15 16
           (RNGScope_construct ?H \<lparr>world = example_world, trace = []\<rparr>) =
         (Inr (11, 2, 0x3FF0000000000000, 0x3FE0000000000000, 1, 1000), s1)" ..
  from w lib native frame c5 same show ?thesis by (intro conjI)
qed

subsection \<open>C5: state and side effects\<close>

text \<open>
  C5 says that the wrapper reads and writes no state outside its local variables and has
  no effect beyond the delegated call. Line 13 contradicts it: the RNG scope reads and
  writes the generator state of the host. In the example state the call that passes a
  character vector as the target dimensionality never invokes the native routine and still
  changes the seed the caller sees.
\<close>

theorem seed_written_counterexample:
  "invocations (trace (snd (Rtsne_multicore_Rtsne_cpp (R_host right_to_left (spec_Rtsne_cpp zero_engine))
     11 17 13 14 15 16 example_world))) = [] \<and>
   Random_seed (world (snd (Rtsne_multicore_Rtsne_cpp (R_host right_to_left (spec_Rtsne_cpp zero_engine))
     11 17 13 14 15 16 example_world))) \<noteq> Random_seed example_world"
  by (simp add: example_call_refused R_condition_def allocate_def PutRNGstate_def)
     (simp add: example_world_def)

text \<open>
  C5, amended: the wrapper keeps no state of its own, and what it changes in the host it
  changes through the operations of the binding library (the RNG scope, the conversions,
  the wrap, the error condition) and the one invocation of the native routine. For every
  part of the host state that the library's operations leave unchanged: a call without an
  invocation leaves it unchanged, and a call with its one invocation changes it as that
  invocation does, started on a state in which the part is as the caller left it.
\<close>

theorem changed_only_by_native_call:
  fixes h :: "('w, 's, 'm, 'r, 'e) host"
  assumes w: "I w"
    and lib: "library_leaves_unchanged I obs h"
    and native: "native_keeps I h"
  shows "case invocations (trace (snd (Rtsne_multicore_Rtsne_cpp h XS dS pS tS nS mS w))) of
           [] \<Rightarrow> obs (world (snd (Rtsne_multicore_Rtsne_cpp h XS dS pS tS nS mS w))) = obs w
         | ev # evs \<Rightarrow>
             evs = [] \<and>
             (\<exists>X d p t n m w1.
                ev = Rtsne_cpp_called X d p t n m \<and> I w1 \<and> obs w1 = obs w \<and>
                obs (world (snd (Rtsne_multicore_Rtsne_cpp h XS dS pS tS nS mS w))) =
                  obs (snd (Rtsne_cpp h X d p t n m w1)))"
proof (cases rule: wrapper_cases
    [where h = h and XS = XS and dS = dS and pS = pS and tS = tS and nS = nS and mS = mS and w = w])
  case (conversion_fails e s1)
  from before_native [OF lib w conversion_fails] have s1: "I (world s1)" "obs (world s1) = obs w"
    by simp_all
  from after_native(1) [OF lib s1(1)] s1(2)
  have "obs (world (snd (Rtsne_multicore_Rtsne_cpp h XS dS pS tS nS mS w))) = obs w"
    by (simp add: wrapper_conversion_fails [OF conversion_fails])
  then show ?thesis
    by (simp add: invocations_conversion_fails [OF conversion_fails])
next
  case (native_throws X d p t n m s1 e w2)
  from before_native [OF lib w native_throws(1)] have s1: "I (world s1)" "obs (world s1) = obs w"
    by simp_all
  from native_keepsD [OF native s1(1) native_throws(2)] have w2: "I w2" .
  from after_native(1) [OF lib w2] native_throws(2)
  have "obs (world (snd (Rtsne_multicore_Rtsne_cpp h XS dS pS tS nS mS w))) =
      obs (snd (Rtsne_cpp h X d p t n m (world s1)))"
    by (simp add: wrapper_native_throws [OF native_throws])
  with s1 have "\<exists>X' d' p' t' n' m' w1.
      Rtsne_cpp_called X d p t n m = Rtsne_cpp_called X' d' p' t' n' m' \<and> I w1 \<and> obs w1 = obs w \<and>
      obs (world (snd (Rtsne_multicore_Rtsne_cpp h XS dS pS tS nS mS w))) =
        obs (snd (Rtsne_cpp h X' d' p' t' n' m' w1))"
    by blast
  then show ?thesis
    by (simp add: invocations_native_throws [OF native_throws])
next
  case (native_returns X d p t n m s1 res w2)
  from before_native [OF lib w native_returns(1)] have s1: "I (world s1)" "obs (world s1) = obs w"
    by simp_all
  from native_keepsD [OF native s1(1) native_returns(2)] have w2: "I w2" .
  from after_native(2) [OF lib w2] native_returns(2)
  have "obs (world (snd (Rtsne_multicore_Rtsne_cpp h XS dS pS tS nS mS w))) =
      obs (snd (Rtsne_cpp h X d p t n m (world s1)))"
    by (simp add: wrapper_native_returns [OF native_returns])
  with s1 have "\<exists>X' d' p' t' n' m' w1.
      Rtsne_cpp_called X d p t n m = Rtsne_cpp_called X' d' p' t' n' m' \<and> I w1 \<and> obs w1 = obs w \<and>
      obs (world (snd (Rtsne_multicore_Rtsne_cpp h XS dS pS tS nS mS w))) =
        obs (snd (Rtsne_cpp h X' d' p' t' n' m' w1))"
    by blast
  then show ?thesis
    by (simp add: invocations_native_returns [OF native_returns])
qed

text \<open>
  With the native routine that clears its input, the matrix at address 11 is after the
  example call what the one invocation made of it.
\<close>

theorem changed_only_by_native_call_witness:
  "11 < allocated example_world \<and>
   library_leaves_unchanged (\<lambda>w. 11 < allocated w) (\<lambda>w. heap w 11)
     (R_host right_to_left in_place_Rtsne_cpp) \<and>
   native_keeps (\<lambda>w. 11 < allocated w) (R_host right_to_left in_place_Rtsne_cpp) \<and>
   (case invocations (trace (snd (Rtsne_multicore_Rtsne_cpp (R_host right_to_left in_place_Rtsne_cpp)
            11 12 13 14 15 16 example_world))) of
      [] \<Rightarrow> heap (world (snd (Rtsne_multicore_Rtsne_cpp (R_host right_to_left in_place_Rtsne_cpp)
            11 12 13 14 15 16 example_world))) 11 = heap example_world 11
    | ev # evs \<Rightarrow>
        evs = [] \<and>
        (\<exists>X d p t n m w1.
           ev = Rtsne_cpp_called X d p t n m \<and> 11 < allocated w1 \<and> heap w1 11 = heap example_world 11 \<and>
           heap (world (snd (Rtsne_multicore_Rtsne_cpp (R_host right_to_left in_place_Rtsne_cpp)
             11 12 13 14 15 16 example_world))) 11 =
             heap (snd (Rtsne_cpp (R_host right_to_left in_place_Rtsne_cpp) X d p t n m w1)) 11))"
proof -
  have w: "11 < allocated example_world" by (simp add: allocated_example)
  note lib = R_library_leaves_unchanged [of 11 right_to_left in_place_Rtsne_cpp]
  note native = in_place_native_keeps [of 11 right_to_left]
  from changed_only_by_native_call
    [of "\<lambda>w. 11 < allocated w" example_world "\<lambda>w. heap w 11", OF w lib native,
     of 11 12 13 14 15 16]
    w lib native
  show ?thesis by (intro conjI)
qed

subsection \<open>C10: an integer parameter supplied as a real\<close>

text \<open>
  C10: a real number supplied for \<^verbatim>\<open>no_dims_in\<close>, \<^verbatim>\<open>num_threads\<close> or \<^verbatim>\<open>max_iter\<close> is
  coerced to an \<^verbatim>\<open>int\<close> by the host's conversion and raises no error; only a value that
  the host cannot coerce makes the call fail. On the host of the spec, for every order of
  evaluation and every native routine: when the six arguments are a numeric matrix and
  five numbers, the arguments of the call evaluate to the matrix, the two reals as they are
  and the three integers \<open>IntegerFromReal\<close> of the reals supplied, and the call is the
  application of the routine to these values. A conversion fails in a call only on an
  object that is not a number (for the matrix: not a numeric matrix). And when the object
  supplied for an integer parameter is not a number, the call signals the condition of an
  \<open>ArgumentTypeError\<close> and the routine is not invoked.
\<close>

theorem integer_parameters_coerced_by_host:
  "(heap w XS = REALSXP_matrix M \<and> heap w dS = REALSXP [dv] \<and> heap w pS = REALSXP [pv] \<and>
    heap w tS = REALSXP [tv] \<and> heap w nS = REALSXP [nv] \<and> heap w mS = REALSXP [mv] \<longrightarrow>
      (\<exists>s1. evaluate_arguments (R_host ord native) XS dS pS tS nS mS
               (RNGScope_construct (R_host ord native) \<lparr>world = w, trace = []\<rparr>) =
             (Inr (XS, IntegerFromReal dv, pv, tv, IntegerFromReal nv, IntegerFromReal mv), s1)) \<and>
      fst (Rtsne_multicore_Rtsne_cpp (R_host ord native) XS dS pS tS nS mS w) =
        (case native XS (IntegerFromReal dv) pv tv (IntegerFromReal nv) (IntegerFromReal mv)
                (GetRNGstate w) of
           (Inl e, w2) \<Rightarrow> Signalled (fst (R_condition e (PutRNGstate w2)))
         | (Inr res, w2) \<Rightarrow> Returned (fst (R_wrap res w2))) \<and>
      world (snd (Rtsne_multicore_Rtsne_cpp (R_host ord native) XS dS pS tS nS mS w)) =
        (case native XS (IntegerFromReal dv) pv tv (IntegerFromReal nv) (IntegerFromReal mv)
                (GetRNGstate w) of
           (Inl e, w2) \<Rightarrow> snd (R_condition e (PutRNGstate w2))
         | (Inr res, w2) \<Rightarrow> PutRNGstate (snd (R_wrap res w2)))) \<and>
   (\<forall>q. Conversion_failed q \<in>
          set (trace (snd (Rtsne_multicore_Rtsne_cpp (R_host ord native) XS dS pS tS nS mS w))) \<longrightarrow>
        (case q of
           Arg_X \<Rightarrow> \<forall>M. heap w XS \<noteq> REALSXP_matrix M
         | Arg_no_dims_in \<Rightarrow> \<forall>v. heap w dS \<noteq> REALSXP [v]
         | Arg_perplexity_in \<Rightarrow> \<forall>v. heap w pS \<noteq> REALSXP [v]
         | Arg_theta_in \<Rightarrow> \<forall>v. heap w tS \<noteq> REALSXP [v]
         | Arg_num_threads \<Rightarrow> \<forall>v. heap w nS \<noteq> REALSXP [v]
         | Arg_max_iter \<Rightarrow> \<forall>v. heap w mS \<noteq> REALSXP [v])) \<and>
   ((\<forall>v. heap w dS \<noteq> REALSXP [v]) \<or> (\<forall>v. heap w nS \<noteq> REALSXP [v]) \<or>
    (\<forall>v. heap w mS \<noteq> REALSXP [v]) \<longrightarrow>
      fst (Rtsne_multicore_Rtsne_cpp (R_host ord native) XS dS pS tS nS mS w) =
        Signalled (fst (R_condition ArgumentTypeError (PutRNGstate (GetRNGstate w)))) \<and>
      heap (world (snd (Rtsne_multicore_Rtsne_cpp (R_host ord native) XS dS pS tS nS mS w)))
        (fst (R_condition ArgumentTypeError (PutRNGstate (GetRNGstate w)))) =
        Condition ArgumentTypeError \<and>
      invocations (trace (snd (Rtsne_multicore_Rtsne_cpp (R_host ord native) XS dS pS tS nS mS w))) =
        [])"
  (is "?coerced \<and> ?only \<and> ?refused")
proof (intro conjI)
  show ?coerced
  proof (intro impI, elim conjE)
    assume obj: "heap w XS = REALSXP_matrix M" "heap w dS = REALSXP [dv]" "heap w pS = REALSXP [pv]"
      "heap w tS = REALSXP [tv]" "heap w nS = REALSXP [nv]" "heap w mS = REALSXP [mv]"
    let ?call = "native XS (IntegerFromReal dv) pv tv (IntegerFromReal nv) (IntegerFromReal mv)
        (GetRNGstate w)"
    from R_arguments_convert [OF obj, of ord native]
    have args: "\<exists>s1. evaluate_arguments (R_host ord native) XS dS pS tS nS mS
               (RNGScope_construct (R_host ord native) \<lparr>world = w, trace = []\<rparr>) =
             (Inr (XS, IntegerFromReal dv, pv, tv, IntegerFromReal nv, IntegerFromReal mv), s1)"
      by blast
    obtain r w2 where call: "?call = (r, w2)"
      by (cases ?call) auto
    have "fst (Rtsne_multicore_Rtsne_cpp (R_host ord native) XS dS pS tS nS mS w) =
        (case ?call of
           (Inl e, w2) \<Rightarrow> Signalled (fst (R_condition e (PutRNGstate w2)))
         | (Inr res, w2) \<Rightarrow> Returned (fst (R_wrap res w2))) \<and>
      world (snd (Rtsne_multicore_Rtsne_cpp (R_host ord native) XS dS pS tS nS mS w)) =
        (case ?call of
           (Inl e, w2) \<Rightarrow> snd (R_condition e (PutRNGstate w2))
         | (Inr res, w2) \<Rightarrow> PutRNGstate (snd (R_wrap res w2)))"
    proof (cases r)
      case (Inl e)
      with call have call': "?call = (Inl e, w2)" by simp
      from R_call_throws(1,2) [where native = native and ord = ord, OF obj call'] call'
      show ?thesis by simp
    next
      case (Inr res)
      with call have call': "?call = (Inr res, w2)" by simp
      from R_call_returns(1,2) [where native = native and ord = ord, OF obj call'] call'
      show ?thesis by simp
    qed
    with args
    show "(\<exists>s1. evaluate_arguments (R_host ord native) XS dS pS tS nS mS
               (RNGScope_construct (R_host ord native) \<lparr>world = w, trace = []\<rparr>) =
             (Inr (XS, IntegerFromReal dv, pv, tv, IntegerFromReal nv, IntegerFromReal mv), s1)) \<and>
      fst (Rtsne_multicore_Rtsne_cpp (R_host ord native) XS dS pS tS nS mS w) =
        (case ?call of
           (Inl e, w2) \<Rightarrow> Signalled (fst (R_condition e (PutRNGstate w2)))
         | (Inr res, w2) \<Rightarrow> Returned (fst (R_wrap res w2))) \<and>
      world (snd (Rtsne_multicore_Rtsne_cpp (R_host ord native) XS dS pS tS nS mS w)) =
        (case ?call of
           (Inl e, w2) \<Rightarrow> snd (R_condition e (PutRNGstate w2))
         | (Inr res, w2) \<Rightarrow> PutRNGstate (snd (R_wrap res w2)))"
      by (intro conjI) (elim conjE, assumption)+
  qed
  show ?only
    by (intro allI impI) (rule R_failed_conversion)
  show ?refused
  proof (intro impI)
    assume "(\<forall>v. heap w dS \<noteq> REALSXP [v]) \<or> (\<forall>v. heap w nS \<noteq> REALSXP [v]) \<or>
        (\<forall>v. heap w mS \<noteq> REALSXP [v])"
    then have refused: "(\<forall>M. heap w XS \<noteq> REALSXP_matrix M) \<or> (\<forall>v. heap w dS \<noteq> REALSXP [v]) \<or>
        (\<forall>v. heap w pS \<noteq> REALSXP [v]) \<or> (\<forall>v. heap w tS \<noteq> REALSXP [v]) \<or>
        (\<forall>v. heap w nS \<noteq> REALSXP [v]) \<or> (\<forall>v. heap w mS \<noteq> REALSXP [v])"
      by blast
    note run = R_call_refused [where native = native and ord = ord, OF refused]
    from run(2) have "heap (world (snd (Rtsne_multicore_Rtsne_cpp (R_host ord native)
          XS dS pS tS nS mS w)))
        (fst (R_condition ArgumentTypeError (PutRNGstate (GetRNGstate w)))) =
        Condition ArgumentTypeError"
      by (simp add: heap_R_condition)
    with run(1,3)
    show "fst (Rtsne_multicore_Rtsne_cpp (R_host ord native) XS dS pS tS nS mS w) =
        Signalled (fst (R_condition ArgumentTypeError (PutRNGstate (GetRNGstate w)))) \<and>
      heap (world (snd (Rtsne_multicore_Rtsne_cpp (R_host ord native) XS dS pS tS nS mS w)))
        (fst (R_condition ArgumentTypeError (PutRNGstate (GetRNGstate w)))) =
        Condition ArgumentTypeError \<and>
      invocations (trace (snd (Rtsne_multicore_Rtsne_cpp (R_host ord native) XS dS pS tS nS mS w))) =
        []"
      by (intro conjI)
  qed
qed

text \<open>
  In the example state the reals 2.0, 1.0 and 1000.0 at addresses 12, 15 and 16 reach the
  routine as the integers 2, 1 and 1000: a routine that keeps what it is called with has
  kept them. The character vector at address 17, which the host cannot coerce, makes the
  call fail at \<^verbatim>\<open>no_dims_in\<close>, and nothing is invoked.
\<close>

theorem integer_parameters_coerced_by_host_witness:
  "heap example_world 11 = REALSXP_matrix example_matrix \<and>
   heap example_world 12 = REALSXP [0x4000000000000000] \<and>
   heap example_world 13 = REALSXP [0x3FF0000000000000] \<and>
   heap example_world 14 = REALSXP [0x3FE0000000000000] \<and>
   heap example_world 15 = REALSXP [0x3FF0000000000000] \<and>
   heap example_world 16 = REALSXP [0x408F400000000000] \<and>
   received (world (snd (Rtsne_multicore_Rtsne_cpp (R_host right_to_left recording_Rtsne_cpp)
     11 12 13 14 15 16 example_world))) =
     [(11, 2, 0x3FF0000000000000, 0x3FE0000000000000, 1, 1000)] \<and>
   heap example_world 17 = STRSXP [''two''] \<and>
   Conversion_failed Arg_no_dims_in \<in>
     set (trace (snd (Rtsne_multicore_Rtsne_cpp (R_host right_to_left recording_Rtsne_cpp)
       11 17 13 14 15 16 example_world))) \<and>
   fst (Rtsne_multicore_Rtsne_cpp (R_host right_to_left recording_Rtsne_cpp)
     11 17 13 14 15 16 example_world) = Signalled 19 \<and>
   heap (world (snd (Rtsne_multicore_Rtsne_cpp (R_host right_to_left recording_Rtsne_cpp)
     11 17 13 14 15 16 example_world))) 19 = Condition ArgumentTypeError \<and>
   invocations (trace (snd (Rtsne_multicore_Rtsne_cpp (R_host right_to_left recording_Rtsne_cpp)
     11 17 13 14 15 16 example_world))) = []"
proof -
  let ?H = "R_host right_to_left recording_Rtsne_cpp"
  have obj: "heap example_world 11 = REALSXP_matrix example_matrix \<and>
      heap example_world 12 = REALSXP [0x4000000000000000] \<and>
      heap example_world 13 = REALSXP [0x3FF0000000000000] \<and>
      heap example_world 14 = REALSXP [0x3FE0000000000000] \<and>
      heap example_world 15 = REALSXP [0x3FF0000000000000] \<and>
      heap example_world 16 = REALSXP [0x408F400000000000]"
    by (simp add: example_heap)
  from integer_parameters_coerced_by_host
    [of example_world 11 example_matrix 12 "0x4000000000000000" 13 "0x3FF0000000000000"
       14 "0x3FE0000000000000" 15 "0x3FF0000000000000" 16 "0x408F400000000000"
       right_to_left recording_Rtsne_cpp,
     THEN conjunct1, rule_format, OF obj]
  have "world (snd (Rtsne_multicore_Rtsne_cpp ?H 11 12 13 14 15 16 example_world)) =
        (case recording_Rtsne_cpp 11 (IntegerFromReal 0x4000000000000000) 0x3FF0000000000000
                0x3FE0000000000000 (IntegerFromReal 0x3FF0000000000000)
                (IntegerFromReal 0x408F400000000000) (GetRNGstate example_world) of
           (Inl e, w2) \<Rightarrow> snd (R_condition e (PutRNGstate w2))
         | (Inr res, w2) \<Rightarrow> PutRNGstate (snd (R_wrap res w2)))"
    by (elim conjE)
  then have got: "received (world (snd (Rtsne_multicore_Rtsne_cpp ?H
      11 12 13 14 15 16 example_world))) =
      [(11, 2, 0x3FF0000000000000, 0x3FE0000000000000, 1, 1000)]"
    by (simp add: recording_Rtsne_cpp_def received_simps IntegerFromReal_examples)
  have failed: "Conversion_failed Arg_no_dims_in \<in>
     set (trace (snd (Rtsne_multicore_Rtsne_cpp ?H 11 17 13 14 15 16 example_world)))"
    by (rule example_failed_conversion)
  have "(\<forall>v. heap example_world 17 \<noteq> REALSXP [v]) \<or> (\<forall>v. heap example_world 15 \<noteq> REALSXP [v]) \<or>
      (\<forall>v. heap example_world 16 \<noteq> REALSXP [v])"
    by (simp add: example_heap)
  from integer_parameters_coerced_by_host
    [of example_world 11 _ 17 _ 13 _ 14 _ 15 _ 16 _ right_to_left recording_Rtsne_cpp,
     THEN conjunct2, THEN conjunct2, rule_format, OF this]
  have refused: "fst (Rtsne_multicore_Rtsne_cpp ?H 11 17 13 14 15 16 example_world) = Signalled 19"
    "heap (world (snd (Rtsne_multicore_Rtsne_cpp ?H 11 17 13 14 15 16 example_world))) 19 =
       Condition ArgumentTypeError"
    "invocations (trace (snd (Rtsne_multicore_Rtsne_cpp ?H 11 17 13 14 15 16 example_world))) = []"
    by (simp_all add: example_allocated)
  from example_heap(1-6) got example_heap(7) failed refused show ?thesis
    by (intro conjI)
qed

subsection \<open>C6: a matrix without observations\<close>




subsection \<open>C7: the shape of the embedding\<close>

text \<open>
  C7: on a valid input the call returns a result bundle whose embedding has as many rows
  as the input matrix and as many columns as the target dimensionality. The matrix and the
  five scalars are host objects, the scalars numeric vectors of length one as the host
  writes numbers; validity is that of the spec, stated on the converted values. The
  native routine is the one described by the spec, and the order in which the arguments
  are evaluated is any.
\<close>

theorem valid_input_embedding_shape:
  assumes "heap w XS = REALSXP_matrix M"
    and "heap w dS = REALSXP [dv]" and "heap w pS = REALSXP [pv]" and "heap w tS = REALSXP [tv]"
    and "heap w nS = REALSXP [nv]" and "heap w mS = REALSXP [mv]"
    and valid: "valid_input M (IntegerFromReal dv) pv tv (IntegerFromReal nv) (IntegerFromReal mv)"
  shows "\<exists>v B.
           fst (Rtsne_multicore_Rtsne_cpp (R_host ord (spec_Rtsne_cpp engine)) XS dS pS tS nS mS w) =
             Returned v \<and>
           heap (world (snd (Rtsne_multicore_Rtsne_cpp (R_host ord (spec_Rtsne_cpp engine))
             XS dS pS tS nS mS w))) v = VECSXP B \<and>
           nrow (embedding B) = nrow M \<and>
           ncol (embedding B) = nat (sint (IntegerFromReal dv))"
proof -
  let ?H = "R_host ord (spec_Rtsne_cpp engine)"
  let ?w = "GetRNGstate w"
  obtain Y c k where
    engine: "engine M (IntegerFromReal dv) pv tv (IntegerFromReal nv) (IntegerFromReal mv) = (Y, c, k)"
    by (cases "engine M (IntegerFromReal dv) pv tv (IntegerFromReal nv) (IntegerFromReal mv)") auto
  let ?B = "\<lparr>embedding = \<lparr>nrow = nrow M, ncol = nat (sint (IntegerFromReal dv)), elements = Y\<rparr>,
             cost = c, iterations = k\<rparr>"
  from assms(1) valid engine
  have call: "spec_Rtsne_cpp engine XS (IntegerFromReal dv) pv tv (IntegerFromReal nv)
      (IntegerFromReal mv) ?w = (Inr ?B, ?w)"
    by (simp add: spec_Rtsne_cpp_def heap_GetRNGstate)
  note run = R_call_returns [where native = "spec_Rtsne_cpp engine" and ord = ord,
      OF assms(1-6) call]
  from run(1,2)
  have "fst (Rtsne_multicore_Rtsne_cpp ?H XS dS pS tS nS mS w) = Returned (fst (R_wrap ?B ?w)) \<and>
        heap (world (snd (Rtsne_multicore_Rtsne_cpp ?H XS dS pS tS nS mS w))) (fst (R_wrap ?B ?w)) =
          VECSXP ?B"
    by (simp add: heap_R_wrap)
  then show ?thesis
    by (intro exI [where x = "fst (R_wrap ?B ?w)"] exI [where x = ?B]) simp
qed

text \<open>
  The example call is valid: 4 observations, 2 target dimensions, perplexity 1.0, theta
  0.5, one thread and 1000 iterations. Its embedding has 4 rows and 2 columns.
\<close>

theorem valid_input_embedding_shape_witness:
  "heap example_world 11 = REALSXP_matrix example_matrix \<and>
   heap example_world 12 = REALSXP [0x4000000000000000] \<and>
   heap example_world 13 = REALSXP [0x3FF0000000000000] \<and>
   heap example_world 14 = REALSXP [0x3FE0000000000000] \<and>
   heap example_world 15 = REALSXP [0x3FF0000000000000] \<and>
   heap example_world 16 = REALSXP [0x408F400000000000] \<and>
   valid_input example_matrix (IntegerFromReal 0x4000000000000000) 0x3FF0000000000000
     0x3FE0000000000000 (IntegerFromReal 0x3FF0000000000000) (IntegerFromReal 0x408F400000000000) \<and>
   (\<exists>v B.
      fst (Rtsne_multicore_Rtsne_cpp (R_host right_to_left (spec_Rtsne_cpp zero_engine))
        11 12 13 14 15 16 example_world) = Returned v \<and>
      heap (world (snd (Rtsne_multicore_Rtsne_cpp (R_host right_to_left (spec_Rtsne_cpp zero_engine))
        11 12 13 14 15 16 example_world))) v = VECSXP B \<and>
      nrow (embedding B) = 4 \<and> ncol (embedding B) = 2)"
proof -
  have valid: "valid_input example_matrix (IntegerFromReal 0x4000000000000000) 0x3FF0000000000000
     0x3FE0000000000000 (IntegerFromReal 0x3FF0000000000000) (IntegerFromReal 0x408F400000000000)"
    by (simp add: IntegerFromReal_examples valid_example)
  from valid_input_embedding_shape [OF example_heap(1-6) valid, of right_to_left zero_engine]
  have "\<exists>v B.
      fst (Rtsne_multicore_Rtsne_cpp (R_host right_to_left (spec_Rtsne_cpp zero_engine))
        11 12 13 14 15 16 example_world) = Returned v \<and>
      heap (world (snd (Rtsne_multicore_Rtsne_cpp (R_host right_to_left (spec_Rtsne_cpp zero_engine))
        11 12 13 14 15 16 example_world))) v = VECSXP B \<and>
      nrow (embedding B) = 4 \<and> ncol (embedding B) = 2"
    by (simp add: IntegerFromReal_examples example_matrix_def)
  with example_heap(1-6) valid show ?thesis
    by (intro conjI)
qed

end
